theory Spec2Isabelle
  imports Complex_Main "HOL-Library.Multiset"
begin

section \<open>JavaScript values used by the timesheet\<close>

subsection \<open>Strings\<close>

text \<open>
  A JavaScript string is modelled as a \<^typ>\<open>string\<close>, a list of 8-bit characters: its
  code units, which are taken to be below 256 (Latin-1).  \<open>String.prototype.trim\<close>
  strips the white space characters, of which seven are below 256: tab, line feed,
  vertical tab, form feed, carriage return, space and no-break space.
  \<open>String.prototype.toLowerCase\<close> maps \<open>A\<close>..\<open>Z\<close> to \<open>a\<close>..\<open>z\<close> and the capital
  letters of Latin-1 (192 to 222, but for the multiplication sign 215) to the small
  ones, which are 32 further.  An empty string is the only falsy string.
\<close>

definition isWhiteSpace :: "char \<Rightarrow> bool" where
  "isWhiteSpace c =
     (c \<in> set [CHR '' '', CHR 0x09, CHR 0x0A, CHR 0x0B, CHR 0x0C, CHR 0x0D, CHR 0xA0])"

definition trim :: "string \<Rightarrow> string" where
  "trim s = rev (dropWhile isWhiteSpace (rev (dropWhile isWhiteSpace s)))"

definition lowerChar :: "char \<Rightarrow> char" where
  "lowerChar c =
     (let n = (of_char c :: nat)
      in if (65 \<le> n \<and> n \<le> 90) \<or> (192 \<le> n \<and> n \<le> 222 \<and> n \<noteq> 215) then char_of (n + 32) else c)"

definition toLowerCase :: "string \<Rightarrow> string" where
  "toLowerCase s = map lowerChar s"

definition startsWith :: "string \<Rightarrow> string \<Rightarrow> bool" where
  "startsWith s p = (take (length p) s = p)"

definition padStart :: "nat \<Rightarrow> char \<Rightarrow> string \<Rightarrow> string" where
  "padStart n c s = replicate (n - length s) c @ s"

text \<open>Decimal digits, for reading \<open>HH:MM\<close> and for printing numbers.\<close>

definition digitTable :: "(char \<times> nat) list" where
  "digitTable = [(CHR ''0'', 0), (CHR ''1'', 1), (CHR ''2'', 2), (CHR ''3'', 3), (CHR ''4'', 4),
                 (CHR ''5'', 5), (CHR ''6'', 6), (CHR ''7'', 7), (CHR ''8'', 8), (CHR ''9'', 9)]"

definition digitValue :: "char \<Rightarrow> nat option" where
  "digitValue c = map_of digitTable c"

definition digitChar :: "nat \<Rightarrow> char" where
  "digitChar n = (if n < 10 then ''0123456789'' ! n else CHR ''?'')"

fun natToString :: "nat \<Rightarrow> string" where
  "natToString n = (if n < 10 then [digitChar n] else natToString (n div 10) @ [digitChar (n mod 10)])"

declare natToString.simps [simp del]

subsection \<open>Numbers\<close>

text \<open>
  A JavaScript number is \<open>NaN\<close> or a finite double.  A finite value is \<open>Num q\<close> for a
  rational \<open>q\<close> and stands for the double nearest to \<open>q\<close>, which is \<open>toDouble q\<close>: a
  double has 53 significant bits, and of two doubles equally near the one with the even
  last bit is taken.  The range of the exponent is not modelled: there are no
  infinities, and no number is too small for 53 bits.

  \<open>bitLength n\<close> is the number of binary digits of \<open>n\<close>, and \<open>binaryExponent x\<close>, for
  a positive \<open>x\<close>, is the \<open>e\<close> with \<open>2^e \<le> x < 2^(e+1)\<close>.
\<close>

datatype number = NaN | Num rat

fun bitLength :: "nat \<Rightarrow> nat" where
  "bitLength n = (if n = 0 then 0 else Suc (bitLength (n div 2)))"

declare bitLength.simps [simp del]

definition binaryExponent :: "rat \<Rightarrow> int" where
  "binaryExponent x =
     (if 1 \<le> x then int (bitLength (nat \<lfloor>x\<rfloor>)) - 1
      else - int (bitLength (nat (\<lceil>1 / x\<rceil> - 1))))"

definition roundHalfEven :: "rat \<Rightarrow> int" where
  "roundHalfEven x =
     (let f = \<lfloor>x\<rfloor>; r = x - of_int f
      in if r < 1 / 2 then f else if 1 / 2 < r then f + 1 else if even f then f else f + 1)"

definition toDouble :: "rat \<Rightarrow> rat" where
  "toDouble x =
     (if x = 0 then 0
      else let ulp = 2 powi (binaryExponent \<bar>x\<bar> - 52)
           in sgn x * (of_int (roundHalfEven (\<bar>x\<bar> / ulp)) * ulp))"

text \<open>
  The sum, the difference and the product are doubles: the operation takes the doubles
  that its operands stand for and rounds the exact result.  Arithmetic with \<open>NaN\<close>
  gives \<open>NaN\<close>.  No law of arithmetic is assumed of them (the sum of doubles is not
  associative).
\<close>

instantiation number :: "{plus, minus}"
begin

fun plus_number :: "number \<Rightarrow> number \<Rightarrow> number" where
  "plus_number (Num a) (Num b) = Num (toDouble (toDouble a + toDouble b))"
| "plus_number _ _ = NaN"

fun minus_number :: "number \<Rightarrow> number \<Rightarrow> number" where
  "minus_number (Num a) (Num b) = Num (toDouble (toDouble a - toDouble b))"
| "minus_number _ _ = NaN"

instance ..

end

fun js_times :: "number \<Rightarrow> number \<Rightarrow> number" where
  "js_times (Num a) (Num b) = Num (toDouble (toDouble a * toDouble b))"
| "js_times _ _ = NaN"

text \<open>
  The quotient is held as the exact quotient of the two doubles and stands for the
  double nearest to it: whatever takes it (an operation, a comparison, the formatting)
  reads it through \<open>toDouble\<close>.  The program divides by non-zero constants only; a zero
  divisor is mapped to \<open>NaN\<close>.
\<close>

fun js_divide :: "number \<Rightarrow> number \<Rightarrow> number" where
  "js_divide (Num a) (Num b) = (if b = 0 then NaN else Num (toDouble a / toDouble b))"
| "js_divide _ _ = NaN"

text \<open>Every comparison with \<open>NaN\<close> is false.\<close>

fun js_less :: "number \<Rightarrow> number \<Rightarrow> bool" where
  "js_less (Num a) (Num b) = (toDouble a < toDouble b)"
| "js_less _ _ = False"

fun js_less_eq :: "number \<Rightarrow> number \<Rightarrow> bool" where
  "js_less_eq (Num a) (Num b) = (toDouble a \<le> toDouble b)"
| "js_less_eq _ _ = False"

text \<open>\<open>Math.max\<close> of two numbers gives the one with the larger double.\<close>

fun Math_max :: "number \<Rightarrow> number \<Rightarrow> number" where
  "Math_max (Num a) (Num b) = (if toDouble a < toDouble b then Num b else Num a)"
| "Math_max _ _ = NaN"

text \<open>\<open>Math.round\<close> gives the nearest integer; a tie goes to the larger one.\<close>

fun Math_round :: "number \<Rightarrow> number" where
  "Math_round (Num a) = Num (of_int \<lfloor>toDouble a + 1 / 2\<rfloor>)"
| "Math_round NaN = NaN"

fun Math_abs :: "number \<Rightarrow> number" where
  "Math_abs (Num a) = Num \<bar>a\<bar>"
| "Math_abs NaN = NaN"

text \<open>
  \<open>x || 0\<close> for the result \<open>x\<close> of \<open>Map.prototype.get\<close>: \<open>undefined\<close> (no such key),
  \<open>0\<close> and \<open>NaN\<close> are falsy and give \<open>0\<close>.
\<close>

fun orZero :: "number option \<Rightarrow> number" where
  "orZero None = Num 0"
| "orZero (Some NaN) = Num 0"
| "orZero (Some (Num a)) = Num a"

subsection \<open>Times of day\<close>

text \<open>
  \<open>new Date(s).getTime()\<close> for the strings that \<open>calculateHours\<close> builds:
  \<open>1970-01-01T\<close>, a time and \<open>:00\<close>.  A string \<open>1970-01-01THH:mm\<close> or
  \<open>1970-01-01THH:mm:ss\<close> is a local time; the result is given in milliseconds after
  local midnight (the offset of the time zone is the same in every call and cancels in
  the differences the program takes).  The hour is \<open>00\<close>..\<open>23\<close>, the minute and the
  second are \<open>00\<close>..\<open>59\<close>, or the time is \<open>24:00\<close> or \<open>24:00:00\<close>.  Any other
  string is taken for an Invalid Date, whose time value is \<open>NaN\<close>; a time that is
  followed by an offset from UTC is a date as well, and is not modelled.
\<close>

definition twoDigits :: "char \<Rightarrow> char \<Rightarrow> nat option" where
  "twoDigits a b =
     (case (digitValue a, digitValue b) of (Some x, Some y) \<Rightarrow> Some (10 * x + y) | _ \<Rightarrow> None)"

definition timeOfDay :: "nat option \<Rightarrow> nat option \<Rightarrow> nat option \<Rightarrow> nat option" where
  "timeOfDay hh mm ss =
     (case (hh, mm, ss) of
        (Some h, Some m, Some s) \<Rightarrow>
          (if (h \<le> 23 \<and> m \<le> 59 \<and> s \<le> 59) \<or> (h = 24 \<and> m = 0 \<and> s = 0)
           then Some (((60 * h + m) * 60 + s) * 1000) else None)
      | _ \<Rightarrow> None)"

definition isoTime :: "string \<Rightarrow> nat option" where
  "isoTime t =
     (case t of
        [h1, h2, c, m1, m2] \<Rightarrow>
          (if c = CHR '':'' then timeOfDay (twoDigits h1 h2) (twoDigits m1 m2) (Some 0) else None)
      | [h1, h2, c, m1, m2, d, s1, s2] \<Rightarrow>
          (if c = CHR '':'' \<and> d = CHR '':''
           then timeOfDay (twoDigits h1 h2) (twoDigits m1 m2) (twoDigits s1 s2) else None)
      | _ \<Rightarrow> None)"

definition newDate :: "string \<Rightarrow> number" where
  "newDate s =
     (if take 11 s = ''1970-01-01T''
      then (case isoTime (drop 11 s) of Some ms \<Rightarrow> Num (of_nat ms) | None \<Rightarrow> NaN)
      else NaN)"

section \<open>Time arithmetic\<close>

definition calculateHours :: "string \<Rightarrow> string \<Rightarrow> number" where
  "calculateHours start endt =
     (if start = [] \<or> endt = [] then Num 0
      else
        let startTime = newDate (''1970-01-01T'' @ start @ '':00'');
            endTime = newDate (''1970-01-01T'' @ endt @ '':00'')
        in if js_less_eq endTime startTime then Num 0
           else
             let diff = endTime - startTime;
                 hours = js_divide diff (Num (1000 * 60 * 60))
             in Math_max (Num 0) hours)"

text \<open>
  \<open>Intl.NumberFormat('de-DE', {minimumFractionDigits: 2, maximumFractionDigits: 2}).format\<close>:
  the double rounded to hundredths (a tie away from zero), the integer part in groups of
  three digits separated by \<open>.\<close>, a decimal comma and two decimals.
\<close>

fun groupRev :: "string \<Rightarrow> string" where
  "groupRev (a # b # c # d # rest) = a # b # c # CHR ''.'' # groupRev (d # rest)"
| "groupRev s = s"

definition groupDigits :: "string \<Rightarrow> string" where
  "groupDigits s = rev (groupRev (rev s))"

definition decimalDE :: "nat \<Rightarrow> string" where
  "decimalDE cents =
     groupDigits (natToString (cents div 100)) @ '','' @
     padStart 2 (CHR ''0'') (natToString (cents mod 100))"

definition formatDE :: "number \<Rightarrow> string" where
  "formatDE x =
     (case x of
        NaN \<Rightarrow> ''NaN''
      | Num a \<Rightarrow>
          (if toDouble a < 0 then ''-'' else []) @ decimalDE (nat \<lfloor>\<bar>toDouble a\<bar> * 100 + 1 / 2\<rfloor>))"

definition formatHours :: "number \<Rightarrow> string" where
  "formatHours hours =
     (let roundedHours = js_divide (Math_round (js_times hours (Num 100))) (Num 100);
          formattedNumber = formatDE (Math_abs roundedHours);
          sign = (if js_less roundedHours (Num 0) then ''-'' else ''+'')
      in sign @ '' '' @ formattedNumber)"

section \<open>Data model\<close>

record deployment =
  dep_id :: string
  dep_location :: string
  dep_startTime :: string
  dep_endTime :: string

text \<open>An optional field of the interface is an \<open>option\<close>: \<open>None\<close> is \<open>undefined\<close>.\<close>

record entry =
  entry_id :: string
  date :: string
  location :: string
  startTime :: string
  endTime :: string
  isChildSick :: "bool option"
  deployments :: "deployment list option"

record summary_metrics =
  totalOvertime :: number
  currentMonthOvertime :: number
  totalWorkHours :: number
  vacationDays :: nat
  sickDays :: nat
  onCallDays :: nat

text \<open>The parts of the current date that the summary reads (\<open>getMonth\<close> counts from 0).\<close>

record jsdate =
  getFullYear :: nat
  getMonth :: nat

subsection \<open>Sets and maps in insertion order\<close>

text \<open>
  A JavaScript \<open>Set\<close> is the list of its elements in insertion order, without
  duplicates; a \<open>Map\<close> is the list of its key-value pairs in insertion order, and
  setting an existing key keeps its position.
\<close>

definition Set_has :: "'a list \<Rightarrow> 'a \<Rightarrow> bool" where
  "Set_has s x = (x \<in> set s)"

definition Set_add :: "'a list \<Rightarrow> 'a \<Rightarrow> 'a list" where
  "Set_add s x = (if x \<in> set s then s else s @ [x])"

definition Set_size :: "'a list \<Rightarrow> nat" where
  "Set_size s = length s"

fun Map_get :: "('k \<times> 'v) list \<Rightarrow> 'k \<Rightarrow> 'v option" where
  "Map_get [] k = None"
| "Map_get ((k', v) # m) k = (if k' = k then Some v else Map_get m k)"

fun Map_set :: "('k \<times> 'v) list \<Rightarrow> 'k \<Rightarrow> 'v \<Rightarrow> ('k \<times> 'v) list" where
  "Map_set [] k v = [(k, v)]"
| "Map_set ((k', v') # m) k v = (if k' = k then (k, v) # m else (k', v') # Map_set m k v)"

section \<open>The summary of a timesheet\<close>

text \<open>
  \<open>summaryMetrics\<close> is a function of the entries, of the base overtime and of the
  current date, which the program reads from the clock and the model takes as an
  argument.

  First pass: the days of vacation and the days of sickness.
\<close>

definition markDay :: "entry \<Rightarrow> string list \<times> string list \<Rightarrow> string list \<times> string list" where
  "markDay entry sets =
     (case sets of (vacationSet, sickSet) \<Rightarrow>
        let loc = toLowerCase (trim (location entry)) in
        if loc = ''urlaub'' then (Set_add vacationSet (date entry), sickSet)
        else if loc = ''krank'' then (vacationSet, Set_add sickSet (date entry))
        else (vacationSet, sickSet))"

text \<open>
  Second pass: the on-call days and the hours of every day that is not skipped.  The
  sets \<open>vacationDays\<close>, \<open>sickDays\<close> and \<open>onCallDays\<close> of the program are
  \<open>vacationSet\<close>, \<open>sickSet\<close> and \<open>onCallSet\<close> here; the names of the program are
  those of the counts in the result.
\<close>

record day_hours =
  onCallSet :: "string list"
  workHoursByDay :: "(string \<times> number) list"
  deploymentHoursByDay :: "(string \<times> number) list"

definition addDeployment ::
  "string \<Rightarrow> deployment \<Rightarrow> (string \<times> number) list \<Rightarrow> (string \<times> number) list" where
  "addDeployment d dep m =
     (let depHours = calculateHours (dep_startTime dep) (dep_endTime dep);
          currentHours = orZero (Map_get m d)
      in Map_set m d (currentHours + depHours))"

definition processEntry :: "string list \<Rightarrow> string list \<Rightarrow> entry \<Rightarrow> day_hours \<Rightarrow> day_hours" where
  "processEntry vacationSet sickSet entry acc =
     (if Set_has vacationSet (date entry) \<or> Set_has sickSet (date entry) then acc
      else
        let loc = toLowerCase (trim (location entry)) in
        if loc = ''bereitschaft'' then
          acc\<lparr>onCallSet := Set_add (onCallSet acc) (date entry),
              deploymentHoursByDay :=
                (case deployments entry of
                   None \<Rightarrow> deploymentHoursByDay acc
                 | Some deps \<Rightarrow> fold (addDeployment (date entry)) deps (deploymentHoursByDay acc))\<rparr>
        else if loc \<noteq> ''pause'' then
          (let calculated = calculateHours (startTime entry) (endTime entry) in
           if js_less (Num 0) calculated then
             (let currentHours = orZero (Map_get (workHoursByDay acc) (date entry)) in
              acc\<lparr>workHoursByDay :=
                    Map_set (workHoursByDay acc) (date entry) (currentHours + calculated)\<rparr>)
           else acc)
        else acc)"

definition currentMonthStr :: "jsdate \<Rightarrow> string" where
  "currentMonthStr now =
     natToString (getFullYear now) @ ''-'' @ padStart 2 (CHR ''0'') (natToString (getMonth now + 1))"

text \<open>
  The two loops over the maps; the three running totals are \<open>calculatedOvertime\<close>,
  \<open>currentMonthOvertime\<close> and \<open>totalWorkHours\<close>.
\<close>

definition addWorkDay ::
  "string \<Rightarrow> string \<times> number \<Rightarrow> number \<times> number \<times> number \<Rightarrow> number \<times> number \<times> number" where
  "addWorkDay monthStr dh totals =
     (case dh of (d, hours) \<Rightarrow>
      case totals of (calculatedOvertime, monthOvertime, workHours) \<Rightarrow>
        let dailyOvertime = hours - Num 8 in
        (calculatedOvertime + dailyOvertime,
         (if startsWith d monthStr then monthOvertime + dailyOvertime else monthOvertime),
         workHours + hours))"

definition addDeploymentDay ::
  "string \<Rightarrow> string \<times> number \<Rightarrow> number \<times> number \<times> number \<Rightarrow> number \<times> number \<times> number" where
  "addDeploymentDay monthStr dh totals =
     (case dh of (d, hours) \<Rightarrow>
      case totals of (calculatedOvertime, monthOvertime, workHours) \<Rightarrow>
        (calculatedOvertime + hours,
         (if startsWith d monthStr then monthOvertime + hours else monthOvertime),
         workHours + hours))"

definition summaryMetrics :: "entry list \<Rightarrow> number \<Rightarrow> jsdate \<Rightarrow> summary_metrics" where
  "summaryMetrics entries baseOvertime now =
     (case fold markDay entries ([], []) of (vacationSet, sickSet) \<Rightarrow>
      let acc = fold (processEntry vacationSet sickSet) entries
                  \<lparr>onCallSet = [], workHoursByDay = [], deploymentHoursByDay = []\<rparr>;
          monthStr = currentMonthStr now;
          totals = fold (addDeploymentDay monthStr) (deploymentHoursByDay acc)
                     (fold (addWorkDay monthStr) (workHoursByDay acc) (Num 0, Num 0, Num 0))
      in case totals of (calculatedOvertime, monthOvertime, workHours) \<Rightarrow>
         \<lparr>totalOvertime = calculatedOvertime + baseOvertime,
          currentMonthOvertime = monthOvertime,
          totalWorkHours = workHours,
          vacationDays = Set_size vacationSet,
          sickDays = Set_size sickSet,
          onCallDays = Set_size (onCallSet acc)\<rparr>)"

section \<open>The order of the displayed list\<close>

text \<open>
  \<open>String.prototype.localeCompare\<close>: negative, zero or positive.  The strings are
  compared character by character, a colon standing before the digits, as the collation
  of the locale has it, and any other characters in the order of their codes.  For
  strings of digits and colons, as the start times are, this is the order of the locale.
\<close>

definition collationWeight :: "char \<Rightarrow> nat" where
  "collationWeight c = (if c = CHR '':'' then 2 * of_char (CHR ''0'') - 1 else 2 * of_char c)"

fun localeCompare :: "string \<Rightarrow> string \<Rightarrow> number" where
  "localeCompare [] [] = Num 0"
| "localeCompare [] (y # ys) = Num (- 1)"
| "localeCompare (x # xs) [] = Num 1"
| "localeCompare (x # xs) (y # ys) =
     (if x = y then localeCompare xs ys
      else if collationWeight x < collationWeight y then Num (- 1) else Num 1)"

text \<open>\<open>x !== y\<close> on numbers: \<open>NaN\<close> differs from every number, itself included.\<close>

fun js_strict_neq :: "number \<Rightarrow> number \<Rightarrow> bool" where
  "js_strict_neq (Num a) (Num b) = (toDouble a \<noteq> toDouble b)"
| "js_strict_neq _ _ = True"

text \<open>
  \<open>Array.prototype.sort\<close> with a comparison function, as a stable insertion sort: an
  element moves behind the elements it compares greater than (a result that is \<open>NaN\<close>
  counts as 0).  For a consistent comparison function the language fixes the result, the
  stable sorted order, which is what this function returns; for an inconsistent one the
  order is left to the engine.
\<close>

fun insertSorted :: "('a \<Rightarrow> 'a \<Rightarrow> number) \<Rightarrow> 'a \<Rightarrow> 'a list \<Rightarrow> 'a list" where
  "insertSorted cmp x [] = [x]"
| "insertSorted cmp x (y # ys) =
     (if js_less (Num 0) (cmp x y) then y # insertSorted cmp x ys else x # y # ys)"

definition Array_sort :: "('a \<Rightarrow> 'a \<Rightarrow> number) \<Rightarrow> 'a list \<Rightarrow> 'a list" where
  "Array_sort cmp xs = foldr (insertSorted cmp) xs []"

text \<open>
  The comparison function of \<open>sortedEntries\<close>.  \<open>getTime\<close> is the platform's
  \<open>new Date(s).getTime()\<close> on the date strings of the entries (\<open>NaN\<close> for an
  Invalid Date); the properties below hold for every such function.
\<close>

definition compareEntries :: "(string \<Rightarrow> number) \<Rightarrow> entry \<Rightarrow> entry \<Rightarrow> number" where
  "compareEntries getTime a b =
     (let aIsBereitschaft = (toLowerCase (trim (location a)) = ''bereitschaft'');
          bIsBereitschaft = (toLowerCase (trim (location b)) = ''bereitschaft'')
      in if aIsBereitschaft \<and> \<not> bIsBereitschaft then Num 1
         else if \<not> aIsBereitschaft \<and> bIsBereitschaft then Num (- 1)
         else
           let dateA = getTime (date a); dateB = getTime (date b)
           in if js_strict_neq dateA dateB then dateA - dateB
              else if startTime a \<noteq> [] \<and> startTime b \<noteq> []
                   then localeCompare (startTime a) (startTime b)
                   else Num 0)"

definition sortedEntries :: "(string \<Rightarrow> number) \<Rightarrow> entry list \<Rightarrow> entry list" where
  "sortedEntries getTime entries = Array_sort (compareEntries getTime) entries"

section \<open>Adding and updating entries\<close>

text \<open>
  The two validation messages: "Datum und Ort/Auftrag sind Pflichtfelder." and the
  message that a regular entry needs a valid start and end time with a positive span.
\<close>

datatype form_error = RequiredFields | InvalidTimes

text \<open>The state of the form for a new entry, and of the form for a deployment.\<close>

record new_entry =
  ne_date :: string
  ne_location :: string
  ne_startTime :: string
  ne_endTime :: string
  ne_isChildSick :: bool
  ne_hasDeployments :: bool
  ne_deployments :: "deployment list"

record deployment_form =
  df_location :: string
  df_startTime :: string
  df_endTime :: string

record app_state =
  entries :: "entry list"
  newEntry :: new_entry
  currentDeployment :: deployment_form
  error :: "form_error option"

text \<open>The state of the edit dialog: the entry being edited and the check box.\<close>

record edit_form =
  ef_id :: string
  ef_date :: string
  ef_location :: string
  ef_startTime :: string
  ef_endTime :: string
  ef_isChildSick :: "bool option"
  ef_hasDeployments :: bool
  ef_deployments :: "deployment list"

definition isSpecialEntry :: "string \<Rightarrow> bool" where
  "isSpecialEntry loc =
     (let locationLower = toLowerCase (trim loc)
      in locationLower = ''urlaub'' \<or> locationLower = ''krank'' \<or> locationLower = ''bereitschaft'')"

text \<open>The entry that \<open>handleSubmit\<close> builds; its id is the time of the submission.\<close>

definition newEntryToAdd :: "string \<Rightarrow> new_entry \<Rightarrow> entry" where
  "newEntryToAdd newId f =
     (let locationLower = toLowerCase (trim (ne_location f))
      in \<lparr>entry_id = newId,
          date = ne_date f,
          location = ne_location f,
          startTime = (if isSpecialEntry (ne_location f) then [] else ne_startTime f),
          endTime = (if isSpecialEntry (ne_location f) then [] else ne_endTime f),
          isChildSick = (if locationLower = ''krank'' then Some (ne_isChildSick f) else None),
          deployments = (if locationLower = ''bereitschaft'' \<and> ne_hasDeployments f
                         then Some (ne_deployments f) else None)\<rparr>)"

definition handleSubmit :: "string \<Rightarrow> app_state \<Rightarrow> app_state" where
  "handleSubmit newId st =
     (let f = newEntry st in
      if ne_date f = [] \<or> ne_location f = [] then st\<lparr>error := Some RequiredFields\<rparr>
      else if \<not> isSpecialEntry (ne_location f) \<and>
              (ne_startTime f = [] \<or> ne_endTime f = [] \<or>
               js_less_eq (calculateHours (ne_startTime f) (ne_endTime f)) (Num 0))
      then st\<lparr>error := Some InvalidTimes\<rparr>
      else st\<lparr>entries := newEntryToAdd newId f # entries st,
              newEntry := \<lparr>ne_date = ne_date f, ne_location = [], ne_startTime = [],
                           ne_endTime = [], ne_isChildSick = False, ne_hasDeployments = False,
                           ne_deployments = []\<rparr>,
              currentDeployment := \<lparr>df_location = [], df_startTime = [], df_endTime = []\<rparr>,
              error := None\<rparr>)"

definition updatedEntry :: "edit_form \<Rightarrow> entry" where
  "updatedEntry f =
     (let locationLower = toLowerCase (trim (ef_location f))
      in \<lparr>entry_id = ef_id f,
          date = ef_date f,
          location = ef_location f,
          startTime = (if isSpecialEntry (ef_location f) then [] else ef_startTime f),
          endTime = (if isSpecialEntry (ef_location f) then [] else ef_endTime f),
          isChildSick = (if locationLower = ''krank'' then ef_isChildSick f else None),
          deployments = (if locationLower = ''bereitschaft'' \<and> ef_hasDeployments f
                         then Some (ef_deployments f) else None)\<rparr>)"

definition handleUpdateEntry :: "entry \<Rightarrow> entry list \<Rightarrow> entry list" where
  "handleUpdateEntry u prev = map (\<lambda>e. if entry_id e = entry_id u then u else e) prev"

text \<open>
  \<open>handleSaveChanges\<close> of the edit dialog, with the entries that its callback
  \<open>handleUpdateEntry\<close> leaves: the message of the dialog and the entries afterwards.
\<close>

definition handleSaveChanges :: "edit_form \<Rightarrow> entry list \<Rightarrow> form_error option \<times> entry list" where
  "handleSaveChanges f prev =
     (if ef_date f = [] \<or> ef_location f = [] then (Some RequiredFields, prev)
      else if \<not> isSpecialEntry (ef_location f) \<and>
              (ef_startTime f = [] \<or> ef_endTime f = [] \<or>
               js_less_eq (calculateHours (ef_startTime f) (ef_endTime f)) (Num 0))
      then (Some InvalidTimes, prev)
      else (None, handleUpdateEntry (updatedEntry f) prev))"

section \<open>Importing a document\<close>

text \<open>
  What \<open>JSON.parse\<close> returns.  An object is the list of its members in the order of the
  text; a later member replaces an earlier one of the same name.
\<close>

datatype json =
  JNull | JBool bool | JNumber rat | JString string | JArray "json list"
  | JObject "(string \<times> json) list"

text \<open>
  What the file reader hands to \<open>onload\<close>: a result that is no string, a text that
  \<open>JSON.parse\<close> refuses, or the parsed value.
\<close>

datatype file_content = Unreadable | Malformed | Parsed json

datatype import_error = NotText | SyntaxError | InvalidFormat

text \<open>The four state variables that an import replaces; the entries are stored as given.\<close>

record document =
  doc_entries :: "json list"
  doc_employeeName :: string
  doc_savedLocations :: "json list"
  doc_baseOvertime :: number

fun truthy :: "json \<Rightarrow> bool" where
  "truthy JNull = False"
| "truthy (JBool b) = b"
| "truthy (JNumber r) = (r \<noteq> 0)"
| "truthy (JString s) = (s \<noteq> [])"
| "truthy (JArray xs) = True"
| "truthy (JObject kvs) = True"

text \<open>
  \<open>data.k\<close> for the four names the import reads; \<open>None\<close> is \<open>undefined\<close>.  No
  primitive value has a property of these names, and the \<open>entries\<close> of an array is a
  function, which passes none of the three type tests below.
\<close>

fun getProperty :: "json \<Rightarrow> string \<Rightarrow> json option" where
  "getProperty (JObject kvs) k = map_of (rev kvs) k"
| "getProperty _ k = None"

text \<open>\<open>Array.isArray(x)\<close>, \<open>typeof x === 'string'\<close> and \<open>typeof x === 'number'\<close>.\<close>

fun arrayOf :: "json option \<Rightarrow> json list option" where
  "arrayOf (Some (JArray xs)) = Some xs"
| "arrayOf _ = None"

fun stringOf :: "json option \<Rightarrow> string option" where
  "stringOf (Some (JString s)) = Some s"
| "stringOf _ = None"

fun numberOf :: "json option \<Rightarrow> number option" where
  "numberOf (Some (JNumber r)) = Some (Num r)"
| "numberOf _ = None"

definition onload :: "file_content \<Rightarrow> document \<Rightarrow> import_error option \<times> document" where
  "onload content doc =
     (case content of
        Unreadable \<Rightarrow> (Some NotText, doc)
      | Malformed \<Rightarrow> (Some SyntaxError, doc)
      | Parsed data \<Rightarrow>
          (case (if truthy data then arrayOf (getProperty data ''entries'') else None) of
             Some es \<Rightarrow>
               (None,
                \<lparr>doc_entries = es,
                 doc_employeeName =
                   (case stringOf (getProperty data ''employeeName'') of
                      Some s \<Rightarrow> s | None \<Rightarrow> []),
                 doc_savedLocations =
                   (case arrayOf (getProperty data ''savedLocations'') of
                      Some xs \<Rightarrow> xs | None \<Rightarrow> []),
                 doc_baseOvertime =
                   (case numberOf (getProperty data ''baseOvertime'') of
                      Some n \<Rightarrow> n | None \<Rightarrow> Num 0)\<rparr>)
           | None \<Rightarrow> (Some InvalidFormat, doc)))"

section \<open>The vocabulary of the specification\<close>

text \<open>The string \<open>HH:MM\<close> of an hour and a minute, as a time input produces it.\<close>

definition hhmm :: "nat \<Rightarrow> nat \<Rightarrow> string" where
  "hhmm h m = [digitChar (h div 10), digitChar (h mod 10), CHR '':'',
               digitChar (m div 10), digitChar (m mod 10)]"

text \<open>
  The minutes after midnight of a time string as \<open>calculateHours\<close> reads it: of
  \<open>HH:MM\<close>, to which the template adds the seconds, and of \<open>HH\<close>, to which it adds
  the minutes.
\<close>

definition parseTime :: "string \<Rightarrow> nat option" where
  "parseTime s =
     (case s of
        [h1, h2] \<Rightarrow>
          (case twoDigits h1 h2 of
             Some h \<Rightarrow> (if h \<le> 24 then Some (60 * h) else None)
           | None \<Rightarrow> None)
      | [h1, h2, c, m1, m2] \<Rightarrow>
          (case (twoDigits h1 h2, twoDigits m1 m2) of
             (Some h, Some m) \<Rightarrow>
               (if c = CHR '':'' \<and> ((h \<le> 23 \<and> m \<le> 59) \<or> (h = 24 \<and> m = 0))
                then Some (60 * h + m) else None)
           | _ \<Rightarrow> None)
      | _ \<Rightarrow> None)"

text \<open>Rounding to hundredths with a tie away from zero, as the specification words it.\<close>

definition roundHalfAwayFromZero2 :: "rat \<Rightarrow> rat" where
  "roundHalfAwayFromZero2 h = sgn h * of_int \<lfloor>\<bar>h\<bar> * 100 + 1 / 2\<rfloor> / 100"

text \<open>
  The kind of an entry is derived from its location: trimmed and in lower case, one of
  the four reserved words, or anything else for regular work.  The program has no such
  function: it compares the trimmed location in lower case with the reserved words where
  it needs them, and the lemmas \<open>kindOf_Vacation\<close> to \<open>kindOf_Regular\<close> below
  relate the kinds to these comparisons.
\<close>

datatype kind = Vacation | Sick | OnCall | Pause | Regular

definition classify :: "string \<Rightarrow> kind" where
  "classify loc =
     (let l = toLowerCase (trim loc) in
      if l = ''urlaub'' then Vacation
      else if l = ''krank'' then Sick
      else if l = ''bereitschaft'' then OnCall
      else if l = ''pause'' then Pause
      else Regular)"

definition kindOf :: "entry \<Rightarrow> kind" where
  "kindOf e = classify (location e)"

definition datesOfKind :: "kind \<Rightarrow> entry list \<Rightarrow> string list" where
  "datesOfKind k es = map date (filter (\<lambda>e. kindOf e = k) es)"

text \<open>A day is flagged when some entry of the collection on it is a vacation or a sickness.\<close>

definition flagged :: "entry list \<Rightarrow> string \<Rightarrow> bool" where
  "flagged es d = (d \<in> set (datesOfKind Vacation es) \<or> d \<in> set (datesOfKind Sick es))"

definition unflaggedEntries :: "entry list \<Rightarrow> entry list" where
  "unflaggedEntries es = filter (\<lambda>e. \<not> flagged es (date e)) es"

definition entryHours :: "entry \<Rightarrow> number" where
  "entryHours e = calculateHours (startTime e) (endTime e)"

definition deploymentHours :: "deployment \<Rightarrow> number" where
  "deploymentHours dep = calculateHours (dep_startTime dep) (dep_endTime dep)"

definition deploymentsOf :: "entry \<Rightarrow> deployment list" where
  "deploymentsOf e = (case deployments e of None \<Rightarrow> [] | Some deps \<Rightarrow> deps)"

text \<open>The on-call entries and the regular entries with hours, on days that are not flagged.\<close>

definition countedOnCall :: "entry list \<Rightarrow> entry list" where
  "countedOnCall es = filter (\<lambda>e. kindOf e = OnCall \<and> \<not> flagged es (date e)) es"

definition countedRegular :: "entry list \<Rightarrow> entry list" where
  "countedRegular es =
     filter (\<lambda>e. kindOf e = Regular \<and> \<not> flagged es (date e) \<and> js_less (Num 0) (entryHours e)) es"

text \<open>
  The hours of the deployments that count, in the order in which the summary takes
  them: entry after entry, and of an entry deployment after deployment.
\<close>

definition onCallHours :: "entry list \<Rightarrow> number list" where
  "onCallHours es = concat (map (\<lambda>e. map deploymentHours (deploymentsOf e)) (countedOnCall es))"

text \<open>The elements of a list in the order of their first occurrence.\<close>

definition inOrder :: "'a list \<Rightarrow> 'a list" where
  "inOrder xs = fold (\<lambda>x s. Set_add s x) xs []"

text \<open>A sum from left to right, as a loop with \<open>+=\<close> forms it, starting from 0.\<close>

definition sumInOrder :: "number list \<Rightarrow> number" where
  "sumInOrder hs = foldl (+) (Num 0) hs"

text \<open>
  The days with regular hours, in the order of their first regular entry that counts,
  and the regular hours of a day, added in the order of the entries.
\<close>

definition regularDayList :: "entry list \<Rightarrow> string list" where
  "regularDayList es = inOrder (map date (countedRegular es))"

definition regularHoursOn :: "entry list \<Rightarrow> string \<Rightarrow> number" where
  "regularHoursOn es d = sumInOrder (map entryHours (filter (\<lambda>e. date e = d) (countedRegular es)))"

text \<open>
  The days with deployments, in the order of their first on-call entry that counts and
  has a deployment, and the deployment hours of a day, added in the order of the
  entries and of their deployments.
\<close>

definition deploymentDayList :: "entry list \<Rightarrow> string list" where
  "deploymentDayList es = inOrder (map date (filter (\<lambda>e. deploymentsOf e \<noteq> []) (countedOnCall es)))"

definition deploymentHoursOn :: "entry list \<Rightarrow> string \<Rightarrow> number" where
  "deploymentHoursOn es d =
     sumInOrder (concat (map (\<lambda>e. map deploymentHours (deploymentsOf e))
       (filter (\<lambda>e. date e = d) (countedOnCall es))))"

text \<open>An on-call entry does not stand before an entry of another kind.\<close>

definition onCallNotBefore :: "entry \<Rightarrow> entry \<Rightarrow> bool" where
  "onCallNotBefore a b = (kindOf a = OnCall \<longrightarrow> kindOf b = OnCall)"

text \<open>Validation: the kinds whose entries need a start and an end time.\<close>

definition requiresTimes :: "kind \<Rightarrow> bool" where
  "requiresTimes k = (k = Regular \<or> k = Pause)"

definition invalidSubmission :: "string \<Rightarrow> string \<Rightarrow> string \<Rightarrow> string \<Rightarrow> bool" where
  "invalidSubmission d loc s e =
     (d = [] \<or> loc = [] \<or> (requiresTimes (classify loc) \<and> js_less_eq (calculateHours s e) (Num 0)))"

text \<open>The same with regular entries as the only kind that needs times.\<close>

definition invalidAsClaimed :: "string \<Rightarrow> string \<Rightarrow> string \<Rightarrow> string \<Rightarrow> bool" where
  "invalidAsClaimed d loc s e =
     (d = [] \<or> loc = [] \<or> (classify loc = Regular \<and> js_less_eq (calculateHours s e) (Num 0)))"

text \<open>The invariant of the data model on the optional fields and the times of an entry.\<close>

definition wellFormedEntry :: "entry \<Rightarrow> bool" where
  "wellFormedEntry e =
     ((deployments e \<noteq> None \<longrightarrow> kindOf e = OnCall) \<and>
      (isChildSick e \<noteq> None \<longrightarrow> kindOf e = Sick) \<and>
      (kindOf e = Vacation \<or> kindOf e = Sick \<or> kindOf e = OnCall \<longrightarrow>
         startTime e = [] \<and> endTime e = []))"

text \<open>The entries of an imported value, when it has them as an array.\<close>

definition entriesArray :: "file_content \<Rightarrow> json list option" where
  "entriesArray content =
     (case content of Parsed data \<Rightarrow> arrayOf (getProperty data ''entries'') | _ \<Rightarrow> None)"

subsection \<open>Example timesheets\<close>

definition exampleNow :: jsdate where
  "exampleNow = \<lparr>getFullYear = 2024, getMonth = 4\<rparr>"

definition plainEntry :: "string \<Rightarrow> string \<Rightarrow> string \<Rightarrow> string \<Rightarrow> string \<Rightarrow> entry" where
  "plainEntry i d loc s e =
     \<lparr>entry_id = i, date = d, location = loc, startTime = s, endTime = e,
      isChildSick = None, deployments = None\<rparr>"

definition deploymentAt :: "string \<Rightarrow> string \<Rightarrow> string \<Rightarrow> deployment" where
  "deploymentAt i s e = \<lparr>dep_id = i, dep_location = ''Einsatz'', dep_startTime = s, dep_endTime = e\<rparr>"

definition onCallEntry :: "string \<Rightarrow> string \<Rightarrow> deployment list \<Rightarrow> entry" where
  "onCallEntry i d deps = (plainEntry i d ''Bereitschaft'' [] [])\<lparr>deployments := Some deps\<rparr>"

text \<open>
  A week: two regular entries on one day (3 h and 5.5 h), an on-call day with a
  deployment of one hour and one whose end is before its start, and a day of vacation
  that also carries a regular entry.
\<close>

definition morningShift :: entry where
  "morningShift = plainEntry ''1'' ''2024-05-06'' ''Werkstatt'' ''09:00'' ''12:00''"

definition afternoonShift :: entry where
  "afternoonShift = plainEntry ''2'' ''2024-05-06'' ''Werkstatt'' ''13:00'' ''18:30''"

definition nightCall :: entry where
  "nightCall =
     onCallEntry ''3'' ''2024-05-07''
       [deploymentAt ''4'' ''22:00'' ''23:00'', deploymentAt ''5'' ''02:00'' ''01:00'']"

definition holiday :: entry where
  "holiday = plainEntry ''6'' ''2024-05-08'' ''Urlaub'' [] []"

definition holidayShift :: entry where
  "holidayShift = plainEntry ''7'' ''2024-05-08'' ''Werkstatt'' ''09:00'' ''17:00''"

definition exampleWeek :: "entry list" where
  "exampleWeek = [morningShift, afternoonShift, nightCall, holiday, holidayShift]"

text \<open>The day of vacation with its regular entry, and an on-call entry on it.\<close>

definition holidayCall :: entry where
  "holidayCall = onCallEntry ''8'' ''2024-05-08'' [deploymentAt ''9'' ''20:00'' ''21:00'']"

definition vacationDay :: "entry list" where
  "vacationDay = [holiday, holidayShift, holidayCall]"

text \<open>
  The same day with a sickness on it as well, twice, and the on-call day of the week.
\<close>

definition sickLeave :: entry where
  "sickLeave = plainEntry ''10'' ''2024-05-08'' ''Krank'' [] []"

definition mixedDays :: "entry list" where
  "mixedDays = [holiday, sickLeave, sickLeave, holidayCall, nightCall]"

text \<open>Two on-call entries of one day; the deployment of the first has no valid time.\<close>

definition brokenCall :: entry where
  "brokenCall = onCallEntry ''1'' ''2024-05-07'' [deploymentAt ''2'' ''25:00'' ''26:00'']"

definition soundCall :: entry where
  "soundCall = onCallEntry ''3'' ''2024-05-07'' [deploymentAt ''4'' ''10:00'' ''11:00'']"

text \<open>Three entries of one day, in the order in which the list holds them.\<close>

definition lateShift :: entry where
  "lateShift = plainEntry ''3'' ''2024-05-06'' ''Werkstatt'' ''10:00'' ''12:00''"

definition sickNote :: entry where
  "sickNote = plainEntry ''2'' ''2024-05-06'' ''Krank'' [] []"

definition earlyShift :: entry where
  "earlyShift = plainEntry ''1'' ''2024-05-06'' ''Werkstatt'' ''09:00'' ''10:00''"

text \<open>Three short tasks of one day: of 6, of 12 and of 18 minutes.\<close>

definition sixMinutes :: entry where
  "sixMinutes = plainEntry ''1'' ''2024-05-06'' ''Werkstatt'' ''09:00'' ''09:06''"

definition twelveMinutes :: entry where
  "twelveMinutes = plainEntry ''2'' ''2024-05-06'' ''Werkstatt'' ''09:06'' ''09:18''"

definition eighteenMinutes :: entry where
  "eighteenMinutes = plainEntry ''3'' ''2024-05-06'' ''Werkstatt'' ''09:18'' ''09:36''"

text \<open>Three days with one regular entry each.\<close>

definition longDay :: entry where
  "longDay = plainEntry ''1'' ''2024-05-06'' ''Werkstatt'' ''03:12'' ''15:41''"

definition shortDay :: entry where
  "shortDay = plainEntry ''2'' ''2024-05-07'' ''Werkstatt'' ''19:53'' ''20:08''"

definition midDay :: entry where
  "midDay = plainEntry ''3'' ''2024-05-08'' ''Werkstatt'' ''17:19'' ''19:09''"

text \<open>Forms: a pause without times, a regular entry, and an on-call entry with a deployment.\<close>

definition emptyForm :: new_entry where
  "emptyForm =
     \<lparr>ne_date = ''2024-05-06'', ne_location = [], ne_startTime = [], ne_endTime = [],
      ne_isChildSick = False, ne_hasDeployments = False, ne_deployments = []\<rparr>"

definition stateWith :: "new_entry \<Rightarrow> app_state" where
  "stateWith f =
     \<lparr>entries = [earlyShift], newEntry = f,
      currentDeployment = \<lparr>df_location = [], df_startTime = [], df_endTime = []\<rparr>,
      error = None\<rparr>"

definition pauseForm :: new_entry where
  "pauseForm = emptyForm\<lparr>ne_location := ''Pause''\<rparr>"

definition shiftForm :: new_entry where
  "shiftForm = emptyForm\<lparr>ne_location := ''Werkstatt'', ne_startTime := ''10:00'', ne_endTime := ''12:00''\<rparr>"

definition onCallForm :: new_entry where
  "onCallForm =
     emptyForm\<lparr>ne_location := ''Bereitschaft'', ne_startTime := ''08:00'', ne_hasDeployments := True,
               ne_deployments := [deploymentAt ''4'' ''22:00'' ''23:00'']\<rparr>"

definition editOf :: "new_entry \<Rightarrow> edit_form" where
  "editOf f =
     \<lparr>ef_id = ''1'', ef_date = ne_date f, ef_location = ne_location f,
      ef_startTime = ne_startTime f, ef_endTime = ne_endTime f, ef_isChildSick = None,
      ef_hasDeployments = ne_hasDeployments f, ef_deployments = ne_deployments f\<rparr>"

text \<open>An imported object without saved locations and base overtime, and the document before.\<close>

definition importedObject :: json where
  "importedObject =
     JObject [(''employeeName'', JNumber 7), (''entries'', JArray [JString ''x''])]"

definition oldDocument :: document where
  "oldDocument =
     \<lparr>doc_entries = [JNull], doc_employeeName = ''Ada'', doc_savedLocations = [JString ''Werkstatt''],
      doc_baseOvertime = Num 3\<rparr>"

section \<open>Auxiliary notions for the proofs\<close>

text \<open>Adding a list of contributions to a map of hours, as both passes do.\<close>

definition accumulate ::
  "(string \<times> number) list \<Rightarrow> (string \<times> number) list \<Rightarrow> (string \<times> number) list" where
  "accumulate ps m = fold (\<lambda>p m. Map_set m (fst p) (orZero (Map_get m (fst p)) + snd p)) ps m"

text \<open>The contributions of a list of entries, for a given set of skipped days.\<close>

definition workPairs :: "(string \<Rightarrow> bool) \<Rightarrow> entry list \<Rightarrow> (string \<times> number) list" where
  "workPairs P xs =
     map (\<lambda>e. (date e, entryHours e))
       (filter (\<lambda>e. \<not> P (date e) \<and> kindOf e \<noteq> OnCall \<and> kindOf e \<noteq> Pause \<and>
                      js_less (Num 0) (entryHours e)) xs)"

definition deploymentPairs :: "(string \<Rightarrow> bool) \<Rightarrow> entry list \<Rightarrow> (string \<times> number) list" where
  "deploymentPairs P xs =
     concat (map (\<lambda>e. map (\<lambda>dep. (date e, deploymentHours dep)) (deploymentsOf e))
       (filter (\<lambda>e. \<not> P (date e) \<and> kindOf e = OnCall) xs))"

definition onCallDates :: "(string \<Rightarrow> bool) \<Rightarrow> entry list \<Rightarrow> string list" where
  "onCallDates P xs = map date (filter (\<lambda>e. \<not> P (date e) \<and> kindOf e = OnCall) xs)"

definition hourTotals ::
  "string \<Rightarrow> (string \<times> number) list \<Rightarrow> (string \<times> number) list \<Rightarrow> number \<times> number \<times> number" where
  "hourTotals ms wp dp =
     fold (addDeploymentDay ms) (accumulate dp [])
       (fold (addWorkDay ms) (accumulate wp []) (Num 0, Num 0, Num 0))"

section \<open>Properties of the doubles\<close>

lemma bitLength_pos: "0 < n \<Longrightarrow> 0 < bitLength n"
  by (simp add: bitLength.simps [of n])

lemma bitLength_bounds: "0 < n \<Longrightarrow> 2 ^ (bitLength n - 1) \<le> n \<and> n < 2 ^ bitLength n"
proof (induction n rule: bitLength.induct)
  case (1 n)
  show ?case
  proof (cases "n div 2 = 0")
    case True
    with 1(2) have "n = 1" by (auto simp: div_eq_0_iff)
    then show ?thesis
      by (simp add: bitLength.simps [of "Suc 0"] bitLength.simps [of 0])
  next
    case False
    then have pos: "0 < n div 2" by simp
    from 1(1) [OF _ pos] 1(2)
    have ih: "2 ^ (bitLength (n div 2) - 1) \<le> n div 2" "n div 2 < 2 ^ bitLength (n div 2)"
      by simp_all
    have b: "bitLength n = Suc (bitLength (n div 2))"
      using 1(2) by (simp add: bitLength.simps [of n])
    obtain k where k: "bitLength (n div 2) = Suc k"
      using bitLength_pos [OF pos] by (cases "bitLength (n div 2)") simp_all
    have "2 * 2 ^ k \<le> 2 * (n div 2)" "2 * (n div 2) + 1 < 2 * 2 ^ Suc k"
      using ih unfolding k by simp_all
    then have "2 ^ Suc k \<le> n" "n < 2 ^ Suc (Suc k)"
      by simp_all
    then show ?thesis
      unfolding b k by simp
  qed
qed

lemma bitLength_bounds_rat:
  assumes "0 < n"
  shows "(2::rat) ^ (bitLength n - 1) \<le> of_nat n" and "(of_nat n :: rat) + 1 \<le> 2 ^ bitLength n"
proof -
  note b = bitLength_bounds [OF assms]
  have "(of_nat (2 ^ (bitLength n - 1)) :: rat) \<le> of_nat n"
    using b by (simp only: of_nat_le_iff)
  then show "(2::rat) ^ (bitLength n - 1) \<le> of_nat n"
    by simp
  have "Suc n \<le> 2 ^ bitLength n"
    using b by simp
  then have "(of_nat (Suc n) :: rat) \<le> of_nat (2 ^ bitLength n)"
    by (simp only: of_nat_le_iff)
  then show "(of_nat n :: rat) + 1 \<le> 2 ^ bitLength n"
    by simp
qed

text \<open>The exponent of a positive number is what its name says.\<close>

lemma binaryExponent_bounds:
  assumes "0 < x"
  shows "2 powi binaryExponent x \<le> x" and "x < 2 powi (binaryExponent x + 1)"
proof -
  have "2 powi binaryExponent x \<le> x \<and> x < 2 powi (binaryExponent x + 1)"
  proof (cases "1 \<le> x")
    case True
    define n where "n = nat \<lfloor>x\<rfloor>"
    have fl: "1 \<le> \<lfloor>x\<rfloor>" using True by linarith
    then have nn: "(of_nat n :: rat) = of_int \<lfloor>x\<rfloor>" "0 < n"
      unfolding n_def by simp_all
    have n: "of_nat n \<le> x" "x < of_nat n + 1"
      unfolding nn by linarith+
    note b = bitLength_bounds_rat [OF nn(2)]
    obtain k where k: "bitLength n = Suc k"
      using bitLength_pos [OF nn(2)] by (cases "bitLength n") simp_all
    have e: "binaryExponent x = int k"
      using True by (simp add: binaryExponent_def n_def [symmetric] k)
    have e1: "binaryExponent x + 1 = int (Suc k)"
      unfolding e by simp
    have lo: "(2::rat) ^ k \<le> x"
      using order_trans [OF b(1) n(1)] unfolding k by simp
    have hi: "x < 2 ^ Suc k"
      using n(2) b(2) unfolding k by (rule less_le_trans)
    show ?thesis
      unfolding e1 unfolding e power_int_of_nat using lo hi by blast
  next
    case False
    define y where "y = 1 / x"
    have y: "1 < y" "x = 1 / y"
      using False assms by (simp_all add: y_def)
    define n where "n = nat (\<lceil>y\<rceil> - 1)"
    have c: "2 \<le> \<lceil>y\<rceil>" using y(1) by linarith
    then have nn: "(of_nat n :: rat) = of_int \<lceil>y\<rceil> - 1" "0 < n"
      unfolding n_def by simp_all
    have n: "of_nat n < y" "y \<le> of_nat n + 1"
      unfolding nn by linarith+
    note b = bitLength_bounds_rat [OF nn(2)]
    obtain k where k: "bitLength n = Suc k"
      using bitLength_pos [OF nn(2)] by (cases "bitLength n") simp_all
    have e: "binaryExponent x = - int (Suc k)"
      using False by (simp add: binaryExponent_def n_def [symmetric] y_def [symmetric] k)
    have e1: "binaryExponent x + 1 = - int k"
      unfolding e by simp
    have "y \<le> 2 ^ Suc k" using order_trans [OF n(2) b(2)] unfolding k .
    then have lo: "1 / 2 ^ Suc k \<le> x"
      unfolding y(2) using y(1) by (simp add: field_simps)
    have "2 ^ k < y" using le_less_trans [OF b(1) n(1)] unfolding k by simp
    then have hi: "x < 1 / 2 ^ k"
      unfolding y(2) using y(1) by (simp add: field_simps)
    show ?thesis
      unfolding e1 unfolding e power_int_minus_divide power_int_of_nat using lo hi by simp
  qed
  then show "2 powi binaryExponent x \<le> x" and "x < 2 powi (binaryExponent x + 1)"
    by simp_all
qed

lemma powi_less_imp_less: "(2::rat) powi a < 2 powi b \<Longrightarrow> a < b"
proof (rule ccontr)
  assume less: "(2::rat) powi a < 2 powi b" and "\<not> a < b"
  then have "b \<le> a" by simp
  then have "(2::rat) powi b \<le> 2 powi a"
    by (rule power_int_increasing) simp
  with less show False by simp
qed

lemma binaryExponent_unique:
  assumes "2 powi e \<le> x" and "x < 2 powi (e + 1)"
  shows "binaryExponent x = e"
proof -
  have "(0::rat) < 2 powi e" by simp
  with assms(1) have x: "0 < x" by linarith
  note b = binaryExponent_bounds [OF x]
  have "(2::rat) powi binaryExponent x < 2 powi (e + 1)"
    using b(1) assms(2) by (rule le_less_trans)
  then have "binaryExponent x < e + 1"
    by (rule powi_less_imp_less)
  moreover have "(2::rat) powi e < 2 powi (binaryExponent x + 1)"
    using assms(1) b(2) by (rule le_less_trans)
  then have "e < binaryExponent x + 1"
    by (rule powi_less_imp_less)
  ultimately show ?thesis by simp
qed

lemma roundHalfEven_error: "\<bar>of_int (roundHalfEven y) - y\<bar> \<le> 1 / 2"
proof -
  have "of_int \<lfloor>y\<rfloor> \<le> y" "y < of_int \<lfloor>y\<rfloor> + 1"
    by linarith+
  then show ?thesis
    unfolding roundHalfEven_def Let_def by (simp add: abs_le_iff)
qed

lemma roundHalfEven_int [simp]: "roundHalfEven (of_int z) = z"
  by (simp add: roundHalfEven_def)

lemma toDouble_zero [simp]: "toDouble 0 = 0"
  by (simp add: toDouble_def)

text \<open>The nearest double is near: the error is at most the part \<open>2^-53\<close> of the number.\<close>

lemma toDouble_error: "\<bar>toDouble x - x\<bar> \<le> \<bar>x\<bar> / 2 ^ 53"
proof (cases "x = 0")
  case True
  then show ?thesis by simp
next
  case False
  define a where "a = \<bar>x\<bar>"
  define u :: rat where "u = 2 powi (binaryExponent a - 52)"
  define m where "m = roundHalfEven (a / u)"
  have a: "0 < a" using False by (simp add: a_def)
  have u: "0 < u" by (simp add: u_def)
  have x: "x = sgn x * a" by (simp add: a_def sgn_mult_abs)
  have t: "toDouble x = sgn x * (of_int m * u)"
    using False by (simp add: toDouble_def Let_def a_def u_def m_def)
  have "toDouble x - x = sgn x * (of_int m * u - a)"
    unfolding t by (subst (2) x) (simp add: algebra_simps)
  then have "\<bar>toDouble x - x\<bar> = \<bar>of_int m * u - a\<bar>"
    using False by (simp add: abs_mult abs_sgn_eq)
  also have "of_int m * u - a = (of_int m - a / u) * u"
    using u by (simp add: field_simps)
  also have "\<bar>\<dots>\<bar> = \<bar>of_int m - a / u\<bar> * u"
    using u by (simp add: abs_mult)
  also have "\<dots> \<le> 1 / 2 * u"
    using roundHalfEven_error [of "a / u"] u unfolding m_def by (intro mult_right_mono) simp_all
  also have "u = 2 powi binaryExponent a / 2 ^ 52"
    unfolding u_def by (simp add: power_int_diff)
  also have "1 / 2 * (2 powi binaryExponent a / 2 ^ 52) \<le> 1 / 2 * (a / 2 ^ 52)"
    using binaryExponent_bounds(1) [OF a] by (intro mult_left_mono divide_right_mono) simp_all
  finally show ?thesis
    by (simp add: a_def)
qed

lemma toDouble_bound: "\<bar>toDouble x\<bar> \<le> 2 * \<bar>x\<bar>"
proof -
  have "\<bar>x\<bar> / 2 ^ 53 \<le> \<bar>x\<bar>"
    by (simp add: divide_le_eq)
  with toDouble_error [of x] show ?thesis
    by linarith
qed

text \<open>Rounding keeps the sign, so that a comparison with 0 is that of the rationals.\<close>

lemma toDouble_sign [simp]:
  "(0 < toDouble x) = (0 < x)" "(toDouble x < 0) = (x < 0)"
  "(toDouble x \<le> 0) = (x \<le> 0)" "(0 \<le> toDouble x) = (0 \<le> x)"
proof -
  have less: "\<bar>x\<bar> / 2 ^ 53 < \<bar>x\<bar>" if "x \<noteq> 0"
    using that by (simp add: divide_less_eq)
  have pos: "0 < toDouble x" if "0 < x"
    using toDouble_error [of x] less that by linarith
  have neg: "toDouble x < 0" if "x < 0"
    using toDouble_error [of x] less that by linarith
  have zero: "toDouble x = 0" if "x = 0"
    using that by simp
  show "(0 < toDouble x) = (0 < x)" "(toDouble x < 0) = (x < 0)"
    "(toDouble x \<le> 0) = (x \<le> 0)" "(0 \<le> toDouble x) = (0 \<le> x)"
    using pos neg zero by (cases "0 < x"; cases "x < 0"; force)+
qed

text \<open>The integers below \<open>2^53\<close> are doubles.\<close>

lemma toDouble_int:
  assumes "\<bar>z\<bar> < 2 ^ 53"
  shows "toDouble (of_int z) = of_int z"
proof (cases "z = 0")
  case True
  then show ?thesis by simp
next
  case False
  define a :: rat where "a = \<bar>of_int z\<bar>"
  define e where "e = binaryExponent a"
  have az: "a = of_int \<bar>z\<bar>"
    by (simp add: a_def)
  have a: "0 < a" "a < 2 powi 53"
    using False assms unfolding az by simp_all
  have "2 powi e < (2::rat) powi 53"
    using binaryExponent_bounds(1) [OF a(1)] a(2) unfolding e_def by simp
  then have "e < 53"
    by (rule power_int_le_imp_less_exp [rotated]) simp_all
  define k where "k = nat (52 - e)"
  from \<open>e < 53\<close> have k: "e - 52 = - int k"
    by (simp add: k_def)
  have "a / 2 powi (e - 52) = of_int (\<bar>z\<bar> * 2 ^ k)"
    unfolding k az by (simp add: power_int_minus_divide)
  then have "roundHalfEven (a / 2 powi (e - 52)) = \<bar>z\<bar> * 2 ^ k"
    by (simp only: roundHalfEven_int)
  moreover have "toDouble (of_int z) =
      sgn (of_int z) * (of_int (roundHalfEven (a / 2 powi (e - 52))) * 2 powi (e - 52))"
    using False by (simp add: toDouble_def Let_def a_def e_def)
  ultimately have "toDouble (of_int z) = sgn (of_int z) * (of_int (\<bar>z\<bar> * 2 ^ k) * 2 powi (e - 52))"
    by (simp only:)
  also have "\<dots> = sgn (of_int z) * of_int \<bar>z\<bar>"
    unfolding k by (simp add: power_int_minus_divide)
  also have "\<dots> = of_int z"
    by (simp add: sgn_mult_abs)
  finally show ?thesis .
qed

lemma toDouble_nat: "n < 2 ^ 53 \<Longrightarrow> toDouble (of_nat n) = of_nat n"
  using toDouble_int [of "int n"] by simp

lemma toDouble_constants:
  "toDouble 8 = 8" "toDouble 100 = 100" "toDouble 3600000 = 3600000"
  using toDouble_int [of 8] toDouble_int [of 100] toDouble_int [of 3600000] by simp_all

text \<open>A double is the double nearest to itself.\<close>

lemma toDouble_minus: "toDouble (- x) = - toDouble x"
  by (simp add: toDouble_def Let_def)

lemma toDouble_pos:
  "0 < y \<Longrightarrow>
   toDouble y =
     of_int (roundHalfEven (y / 2 powi (binaryExponent y - 52))) * 2 powi (binaryExponent y - 52)"
  by (simp add: toDouble_def Let_def)

lemma toDouble_mantissa:
  assumes "0 < m" and "m \<le> 2 ^ 53" and "2 ^ 52 \<le> m"
  shows "toDouble (of_int m * 2 powi (e - 52)) = of_int m * 2 powi (e - 52)"
proof -
  define u :: rat where "u = 2 powi (e - 52)"
  define y where "y = of_int m * u"
  have u: "0 < u" by (simp add: u_def)
  have y: "0 < y" using assms(1) u by (simp add: y_def)
  have lo: "(2::rat) ^ 52 \<le> of_int m"
    using assms(3) by (metis of_int_le_iff of_int_numeral of_int_power)
  have pe: "(2::rat) powi e = 2 ^ 52 * u" and pe1: "(2::rat) powi (e + 1) = 2 ^ 53 * u"
    and pe2: "(2::rat) powi (e + 1 + 1) = 2 ^ 54 * u" and u1: "(2::rat) powi (e + 1 - 52) = 2 * u"
    unfolding u_def by (simp_all add: power_int_diff power_int_add)
  have "toDouble y = y"
  proof (cases "m = 2 ^ 53")
    case True
    then have m: "(of_int m :: rat) = 2 ^ 53" by simp
    have be: "binaryExponent y = e + 1"
    proof (rule binaryExponent_unique)
      show "2 powi (e + 1) \<le> y"
        unfolding pe1 y_def m by simp
      show "y < 2 powi (e + 1 + 1)"
        unfolding pe2 y_def m using u by simp
    qed
    have "y / (2 * u) = of_int (2 ^ 52)"
      using u unfolding y_def m by simp
    then have rh: "roundHalfEven (y / (2 * u)) = 2 ^ 52"
      by (simp only: roundHalfEven_int)
    have "toDouble y = of_int (2 ^ 52) * (2 * u)"
      unfolding toDouble_pos [OF y] be u1 rh ..
    also have "\<dots> = y"
      unfolding y_def m by simp
    finally show ?thesis .
  next
    case False
    with assms(2) have "m < 2 ^ 53" by simp
    then have hi: "of_int m < (2::rat) ^ 53"
      by (metis of_int_less_iff of_int_numeral of_int_power)
    have be: "binaryExponent y = e"
    proof (rule binaryExponent_unique)
      show "2 powi e \<le> y"
        unfolding pe y_def using lo u by simp
      show "y < 2 powi (e + 1)"
        unfolding pe1 y_def using hi u by simp
    qed
    have "y / u = of_int m"
      using u unfolding y_def by simp
    then have rh: "roundHalfEven (y / u) = m"
      by (simp only: roundHalfEven_int)
    have "toDouble y = of_int m * u"
      unfolding toDouble_pos [OF y] be u_def [symmetric] rh ..
    then show ?thesis
      by (simp add: y_def)
  qed
  then show ?thesis
    by (simp add: y_def u_def)
qed

lemma toDouble_idem [simp]: "toDouble (toDouble x) = toDouble x"
proof (cases "x = 0")
  case True
  then show ?thesis by simp
next
  case False
  define a where "a = \<bar>x\<bar>"
  define e where "e = binaryExponent a"
  define u :: rat where "u = 2 powi (e - 52)"
  define m where "m = roundHalfEven (a / u)"
  have a: "0 < a" using False by (simp add: a_def)
  have u: "0 < u" by (simp add: u_def)
  have pe: "(2::rat) powi e = 2 ^ 52 * u" and pe1: "(2::rat) powi (e + 1) = 2 ^ 53 * u"
    unfolding u_def by (simp_all add: power_int_diff power_int_add)
  note b = binaryExponent_bounds [OF a, folded e_def, unfolded pe pe1]
  have q: "2 ^ 52 \<le> a / u" "a / u < 2 ^ 53"
    using b u by (simp_all add: field_simps)
  have "(2::rat) ^ 52 - 1 < of_int m" "of_int m < (2::rat) ^ 53 + 1"
    using roundHalfEven_error [of "a / u"] q unfolding m_def by linarith+
  then have "(of_int (2 ^ 52 - 1) :: rat) < of_int m" "(of_int m :: rat) < of_int (2 ^ 53 + 1)"
    by simp_all
  then have "2 ^ 52 - 1 < m" "m < 2 ^ 53 + 1"
    by (simp_all only: of_int_less_iff)
  then have m: "0 < m" "m \<le> 2 ^ 53" "2 ^ 52 \<le> m"
    by simp_all
  have t: "toDouble x = sgn x * (of_int m * u)"
    using False by (simp add: toDouble_def Let_def a_def e_def u_def m_def)
  show ?thesis
  proof (cases "0 < x")
    case True
    then show ?thesis
      unfolding t using toDouble_mantissa [OF m, of e] by (simp add: u_def)
  next
    case neg: False
    with False have "sgn x = - 1" by simp
    then show ?thesis
      unfolding t using toDouble_mantissa [OF m, of e] by (simp add: u_def toDouble_minus)
  qed
qed

lemma plus_NaN [simp]: "NaN + x = NaN" "x + NaN = NaN"
  by (cases x; simp)+

lemma minus_NaN [simp]: "NaN - x = NaN" "x - NaN = NaN"
  by (cases x; simp)+

section \<open>Properties of the time arithmetic\<close>

lemma digitValue_digitChar: "n < 10 \<Longrightarrow> digitValue (digitChar n) = Some n"
proof -
  assume "n < 10"
  then have "n \<in> {0, 1, 2, 3, 4, 5, 6, 7, 8, 9}" by auto
  then show ?thesis
    by (auto simp: digitValue_def digitTable_def digitChar_def)
qed

lemma twoDigits_digitChar: "n < 100 \<Longrightarrow> twoDigits (digitChar (n div 10)) (digitChar (n mod 10)) = Some n"
proof -
  assume "n < 100"
  then have "n div 10 < 10" "n mod 10 < 10" by auto
  then show ?thesis
    by (simp add: twoDigits_def digitValue_digitChar)
qed

lemma twoDigits_zero: "twoDigits (CHR ''0'') (CHR ''0'') = Some 0"
  by (simp add: twoDigits_def digitValue_def digitTable_def)

lemma parseTime_hhmm:
  assumes "h < 24" and "m < 60"
  shows "parseTime (hhmm h m) = Some (60 * h + m)"
  using assms by (simp add: parseTime_def hhmm_def twoDigits_digitChar)

lemma parseTime_length: "parseTime s = Some n \<Longrightarrow> length s = 2 \<or> length s = 5"
  by (auto simp: parseTime_def split: list.splits)

lemma parseTime_bound: "parseTime s = Some n \<Longrightarrow> n \<le> 1440"
  by (auto simp: parseTime_def split: list.splits option.splits if_splits)

lemma isoTime_length: "isoTime t = Some n \<Longrightarrow> length t = 5 \<or> length t = 8"
  by (auto simp: isoTime_def split: list.splits)

text \<open>
  The time value of the string that the template makes of a time: so many minutes after
  midnight, in milliseconds.
\<close>

lemma isoTime_template:
  "isoTime (s @ '':00'') = (case parseTime s of Some m \<Rightarrow> Some (m * 60000) | None \<Rightarrow> None)"
proof -
  consider (two) a b where "s = [a, b]" | (five) a b c d e where "s = [a, b, c, d, e]"
    | (other) "length s \<noteq> 2" "length s \<noteq> 5"
    by (cases "length s = 2"; cases "length s = 5")
      (auto simp: length_Suc_conv eval_nat_numeral)
  then show ?thesis
  proof cases
    case two
    then show ?thesis
      by (auto simp: isoTime_def parseTime_def timeOfDay_def twoDigits_zero split: option.splits)
  next
    case five
    then show ?thesis
      by (auto simp: isoTime_def parseTime_def timeOfDay_def twoDigits_zero split: option.splits)
  next
    case other
    then have "parseTime s = None"
      using parseTime_length [of s] by (cases "parseTime s") auto
    moreover have "isoTime (s @ '':00'') = None"
      using other isoTime_length [of "s @ '':00''"] by (cases "isoTime (s @ '':00'')") auto
    ultimately show ?thesis by simp
  qed
qed

lemma newDate_time:
  "newDate (''1970-01-01T'' @ s @ '':00'') =
     (case parseTime s of Some m \<Rightarrow> Num (of_nat m * 60000) | None \<Rightarrow> NaN)"
  by (simp add: newDate_def isoTime_template split: option.splits)

lemma calculateHours_parsed:
  assumes "parseTime s = Some a" and "parseTime e = Some b"
  shows "calculateHours s e = (if b \<le> a then Num 0 else Num (of_nat (b - a) / 60))"
proof -
  have ne: "s \<noteq> []" "e \<noteq> []"
    using assms parseTime_length by fastforce+
  have "a * 60000 < 2 ^ 53" "b * 60000 < 2 ^ 53" "(b - a) * 60000 < 2 ^ 53"
    using parseTime_bound [OF assms(1)] parseTime_bound [OF assms(2)] by simp_all
  then have d: "toDouble (of_nat a * 60000) = of_nat a * 60000"
    "toDouble (of_nat b * 60000) = of_nat b * 60000"
    "toDouble (of_nat (b - a) * 60000) = of_nat (b - a) * 60000"
    using toDouble_nat [of "a * 60000"] toDouble_nat [of "b * 60000"]
      toDouble_nat [of "(b - a) * 60000"] by simp_all
  show ?thesis
  proof (cases "b \<le> a")
    case True
    with assms ne d show ?thesis
      unfolding calculateHours_def newDate_time by simp
  next
    case False
    then have "(of_nat b :: rat) * 60000 - of_nat a * 60000 = of_nat (b - a) * 60000"
      by (simp add: of_nat_diff algebra_simps)
    moreover have "(0::rat) < of_nat (b - a) / 60"
      using False by simp
    ultimately show ?thesis
      using False assms ne d
      unfolding calculateHours_def newDate_time
      by (simp add: Let_def toDouble_constants)
  qed
qed

lemma calculateHours_empty: "calculateHours [] e = Num 0" "calculateHours s [] = Num 0"
  by (simp_all add: calculateHours_def)

text \<open>
  Claim C4.  \<open>calculateHours\<close> returns 0 when either argument is empty, and for two
  times \<open>HH:MM\<close> of one day it returns 0 when the end is not after the start and
  otherwise exactly the difference, in hours (the minutes between them divided by 60);
  nothing is rounded.
\<close>

theorem calculateHours_elapsed:
  "calculateHours [] e = Num 0 \<and> calculateHours s [] = Num 0 \<and>
   (h < 24 \<and> m < 60 \<and> h' < 24 \<and> m' < 60 \<longrightarrow>
      calculateHours (hhmm h m) (hhmm h' m') =
        (if 60 * h' + m' \<le> 60 * h + m then Num 0
         else Num (of_nat ((60 * h' + m') - (60 * h + m)) / 60)))"
  by (simp add: calculateHours_empty calculateHours_parsed parseTime_hhmm)

theorem calculateHours_elapsed_witness:
  "calculateHours [] ''17:30'' = Num 0 \<and> calculateHours ''09:00'' [] = Num 0 \<and>
   calculateHours ''09:00'' ''17:30'' = Num (17 / 2) \<and>
   calculateHours ''17:30'' ''09:00'' = Num 0 \<and>
   calculateHours ''09:00'' ''09:00'' = Num 0"
  using calculateHours_elapsed [of "''17:30''" "''09:00''" 9 0 17 30]
    calculateHours_elapsed [of "''17:30''" "''09:00''" 17 30 9 0]
    calculateHours_elapsed [of "''17:30''" "''09:00''" 9 0 9 0]
  by (simp add: hhmm_def digitChar_def)

section \<open>Properties of the formatting\<close>

lemma formatHours_cents:
  assumes "\<bar>toDouble (toDouble h * 100)\<bar> \<le> 10 ^ 12"
  defines "k \<equiv> \<lfloor>toDouble (toDouble h * 100) + 1 / 2\<rfloor>"
  shows "formatHours (Num h) = (if k < 0 then ''-'' else ''+'') @ '' '' @ decimalDE (nat \<bar>k\<bar>)"
proof -
  let ?p = "toDouble (toDouble h * 100)"
  have "of_int k \<le> ?p + 1 / 2" "?p + 1 / 2 < of_int k + 1"
    unfolding k_def by linarith+
  with assms(1) have "\<bar>of_int k :: rat\<bar> < 10 ^ 12 + 1"
    by linarith
  then have "(of_int \<bar>k\<bar> :: rat) < of_int (10 ^ 12 + 1)"
    by simp
  then have kb: "\<bar>k\<bar> < 10 ^ 12 + 1"
    by (simp only: of_int_less_iff)
  then have dk: "toDouble (of_int k) = of_int k"
    by (intro toDouble_int) simp
  define y :: rat where "y = \<bar>of_int k\<bar> / 100"
  have y: "0 \<le> y" "y * 100 = of_int \<bar>k\<bar>" "y \<le> 10 ^ 10 + 1"
    using kb unfolding y_def by simp_all
  have "y / 2 ^ 53 < 1 / 200"
    using y(3) by simp
  with toDouble_error [of y] y(1) have near: "\<bar>toDouble y - y\<bar> < 1 / 200"
    by simp
  have ty: "0 \<le> toDouble y"
    using y(1) by simp
  have "of_int \<bar>k\<bar> \<le> toDouble y * 100 + 1 / 2" "toDouble y * 100 + 1 / 2 < of_int \<bar>k\<bar> + 1"
    using near unfolding y(2) [symmetric] by linarith+
  then have cents: "\<lfloor>toDouble y * 100 + 1 / 2\<rfloor> = \<bar>k\<bar>"
    by linarith
  have rounded: "js_divide (Math_round (js_times (Num h) (Num 100))) (Num 100) = Num (of_int k / 100)"
    by (simp add: toDouble_constants dk k_def [symmetric])
  have sign: "js_less (Num (of_int k / 100)) (Num 0) = (k < 0)"
    by (simp add: divide_less_0_iff)
  show ?thesis
    unfolding formatHours_def rounded Let_def sign
    using ty cents unfolding y_def by (simp add: formatDE_def not_less)
qed

lemma decimalDE_example: "decimalDE 112 = ''1,12''"
  by code_simp

lemma formatHours_examples:
  "formatHours (Num 0) = ''+ 0,00''"
  "formatHours (Num (- 3 / 2)) = ''- 1,50''"
  "formatHours (Num (- 1 / 8)) = ''- 0,12''"
  "formatHours (Num (- 13 / 100)) = ''- 0,13''"
proof -
  show "formatHours (Num 0) = ''+ 0,00''"
    by code_simp
  show "formatHours (Num (- 3 / 2)) = ''- 1,50''"
    by code_simp
  show "formatHours (Num (- 1 / 8)) = ''- 0,12''"
    by code_simp
  show "formatHours (Num (- 13 / 100)) = ''- 0,13''"
    by code_simp
qed

text \<open>
  Claim C5, as amended.  \<open>formatHours\<close> takes the product of the hours and 100 as the
  program computes it, which is the double nearest to the exact product, and rounds it
  to the nearest integer \<open>k\<close>, a tie going up (towards plus infinity, as \<open>Math.round\<close>
  does): it rounds neither half away from zero nor, where the product is not exact, to
  the hundredth nearest to the hours.  The sign is that of \<open>k\<close>, and the result is the
  sign \<open>+\<close> or \<open>-\<close>, a space, and \<open>k\<close> hundredths with two decimals in German
  notation.  This holds for hours up to a billion in magnitude.  Zero gives \<open>+ 0,00\<close>
  and -1.5 gives \<open>- 1,50\<close>.
\<close>

theorem formatHours_rounds_product:
  "(\<bar>h\<bar> \<le> 10 ^ 9 \<longrightarrow>
      (\<exists>k::int. of_int k - 1 / 2 \<le> toDouble (toDouble h * 100) \<and>
         toDouble (toDouble h * 100) < of_int k + 1 / 2 \<and>
         formatHours (Num h) = (if k < 0 then ''-'' else ''+'') @ '' '' @ decimalDE (nat \<bar>k\<bar>))) \<and>
   formatHours (Num 0) = ''+ 0,00'' \<and>
   formatHours (Num (- 3 / 2)) = ''- 1,50''"
proof -
  have "\<exists>k::int. of_int k - 1 / 2 \<le> toDouble (toDouble h * 100) \<and>
         toDouble (toDouble h * 100) < of_int k + 1 / 2 \<and>
         formatHours (Num h) = (if k < 0 then ''-'' else ''+'') @ '' '' @ decimalDE (nat \<bar>k\<bar>)"
    if h: "\<bar>h\<bar> \<le> 10 ^ 9"
  proof -
    let ?p = "toDouble (toDouble h * 100)"
    have "\<bar>toDouble h * 100\<bar> \<le> 2 * \<bar>h\<bar> * 100"
      using toDouble_bound [of h] by (simp add: abs_mult)
    moreover from h have "\<bar>h\<bar> \<le> 1000000000"
      by simp
    ultimately have "\<bar>?p\<bar> \<le> 1000000000000"
      using toDouble_bound [of "toDouble h * 100"] by linarith
    then have "\<bar>?p\<bar> \<le> 10 ^ 12"
      by simp
    moreover have "of_int \<lfloor>?p + 1 / 2\<rfloor> - 1 / 2 \<le> ?p" and "?p < of_int \<lfloor>?p + 1 / 2\<rfloor> + 1 / 2"
      by linarith+
    ultimately show ?thesis
      using formatHours_cents [of h] by blast
  qed
  then show ?thesis
    using formatHours_examples by simp
qed

text \<open>
  1.115 is no double; the double nearest to it is a little less, its exact product with
  100 is less than 111.5, and the double nearest to this product is 111.5: the program
  prints 1,12.
\<close>

theorem formatHours_rounds_product_witness:
  "\<bar>5021513584518103 / 4503599627370496 :: rat\<bar> \<le> 10 ^ 9 \<and>
   toDouble (223 / 200) = 5021513584518103 / 4503599627370496 \<and>
   5021513584518103 / 4503599627370496 * 100 < (223 / 2 :: rat) \<and>
   toDouble (toDouble (5021513584518103 / 4503599627370496) * 100) = 223 / 2 \<and>
   formatHours (Num (5021513584518103 / 4503599627370496)) = ''+ 1,12''"
proof -
  have d: "toDouble (223 / 200) = 5021513584518103 / 4503599627370496"
    by code_simp
  have p: "toDouble (toDouble (5021513584518103 / 4503599627370496) * 100) = 223 / 2"
    by code_simp
  obtain k :: int where k: "of_int k - 1 / 2 \<le> (223 / 2 :: rat)" "(223 / 2 :: rat) < of_int k + 1 / 2"
    "formatHours (Num (5021513584518103 / 4503599627370496)) =
       (if k < 0 then ''-'' else ''+'') @ '' '' @ decimalDE (nat \<bar>k\<bar>)"
    using formatHours_rounds_product [of "5021513584518103 / 4503599627370496"]
    unfolding p by auto
  from k(1,2) have "(of_int k :: rat) \<le> of_int 112" "(of_int 111 :: rat) < of_int k"
    by simp_all
  then have "k \<le> 112" "111 < k"
    by (simp_all only: of_int_le_iff of_int_less_iff)
  then have "k = 112" by simp
  with k(3) have "formatHours (Num (5021513584518103 / 4503599627370496)) = ''+ 1,12''"
    by (simp add: decimalDE_example)
  with d p show ?thesis by simp
qed

text \<open>
  The claim as stated fails: -0.125 is printed with the magnitude 0,12, where rounding
  away from zero gives 0.13; and zero is printed with a space after the sign and a
  decimal comma.
\<close>

theorem formatHours_half_away_counterexample:
  "formatHours (Num (- 1 / 8)) = ''- 0,12'' \<and>
   roundHalfAwayFromZero2 (- 1 / 8) = - 13 / 100 \<and>
   formatHours (Num (roundHalfAwayFromZero2 (- 1 / 8))) = ''- 0,13'' \<and>
   formatHours (Num 0) \<noteq> ''+0.00''"
proof -
  have r: "roundHalfAwayFromZero2 (- 1 / 8) = - 13 / 100"
    by (simp add: roundHalfAwayFromZero2_def)
  show ?thesis
    using formatHours_examples r by simp
qed

section \<open>Properties of the summary\<close>

subsection \<open>Kinds\<close>

lemma kindOf_Vacation: "(kindOf e = Vacation) = (toLowerCase (trim (location e)) = ''urlaub'')"
  by (simp add: kindOf_def classify_def Let_def)

lemma kindOf_Sick: "(kindOf e = Sick) = (toLowerCase (trim (location e)) = ''krank'')"
  by (auto simp add: kindOf_def classify_def Let_def)

lemma kindOf_OnCall: "(kindOf e = OnCall) = (toLowerCase (trim (location e)) = ''bereitschaft'')"
  by (auto simp add: kindOf_def classify_def Let_def)

lemma kindOf_Pause: "(kindOf e = Pause) = (toLowerCase (trim (location e)) = ''pause'')"
  by (auto simp add: kindOf_def classify_def Let_def)

lemma kindOf_Regular:
  "(kindOf e = Regular) =
     (toLowerCase (trim (location e)) \<notin> {''urlaub'', ''krank'', ''bereitschaft'', ''pause''})"
  by (auto simp add: kindOf_def classify_def Let_def)

subsection \<open>Sets and maps\<close>

lemma set_Set_add: "set (Set_add s x) = insert x (set s)"
  by (auto simp: Set_add_def)

lemma distinct_Set_add: "distinct s \<Longrightarrow> distinct (Set_add s x)"
  by (simp add: Set_add_def)

lemma Set_add_twice: "Set_add (Set_add s x) x = Set_add s x"
  by (simp add: Set_add_def)

lemma accumulate_Nil [simp]: "accumulate [] m = m"
  by (simp add: accumulate_def)

lemma accumulate_Cons [simp]:
  "accumulate (p # ps) m = accumulate ps (Map_set m (fst p) (orZero (Map_get m (fst p)) + snd p))"
  by (simp add: accumulate_def)

lemma accumulate_append [simp]: "accumulate (ps @ qs) m = accumulate qs (accumulate ps m)"
  by (simp add: accumulate_def)

lemma orZero_not_NaN [simp]: "orZero x \<noteq> NaN"
  by (cases x rule: orZero.cases) simp_all

lemma add_not_NaN: "x \<noteq> NaN \<Longrightarrow> y \<noteq> NaN \<Longrightarrow> x + y \<noteq> NaN"
  by (cases x; cases y) simp_all

lemma orZero_Some: "x \<noteq> NaN \<Longrightarrow> orZero (Some x) = x"
  by (cases x) simp_all

lemma Map_get_Map_set: "Map_get (Map_set m k v) k' = (if k' = k then Some v else Map_get m k')"
  by (induction m) auto

lemma keys_Map_set:
  "map fst (Map_set m k v) = (if k \<in> fst ` set m then map fst m else map fst m @ [k])"
  by (induction m) (fastforce split: if_splits)+

lemma keys_Map_set_list: "map fst (Map_set m k v) = Set_add (map fst m) k"
  by (simp add: keys_Map_set Set_add_def)

lemma filter_key_absent: "k \<notin> fst ` set ps \<Longrightarrow> filter (\<lambda>p. fst p = k) ps = []"
  by (induction ps) auto

lemma keys_Map_set_set: "fst ` set (Map_set m k v) = insert k (fst ` set m)"
  using arg_cong [OF keys_Map_set [of m k v], of set] by (auto split: if_splits)

lemma keys_accumulate: "fst ` set (accumulate ps m) = fst ` set m \<union> fst ` set ps"
  by (induction ps arbitrary: m) (simp_all add: keys_Map_set_set)

lemma distinct_accumulate: "distinct (map fst m) \<Longrightarrow> distinct (map fst (accumulate ps m))"
  by (induction ps arbitrary: m) (auto simp: keys_Map_set)

text \<open>The keys of a map stand in the order in which they were first set.\<close>

lemma keys_accumulate_list:
  "map fst (accumulate ps m) = fold (\<lambda>k s. Set_add s k) (map fst ps) (map fst m)"
  by (induction ps arbitrary: m) (simp_all add: keys_Map_set_list)

text \<open>
  The value of a key is the sum of its contributions, added from left to right; no
  contribution may be \<open>NaN\<close>, which \<open>x || 0\<close> would replace by 0.
\<close>

lemma Map_get_accumulate:
  "NaN \<notin> snd ` set ps \<Longrightarrow>
   Map_get (accumulate ps m) d =
     (if d \<in> fst ` set ps
      then Some (foldl (+) (orZero (Map_get m d)) (map snd (filter (\<lambda>p. fst p = d) ps)))
      else Map_get m d)"
proof (induction ps arbitrary: m)
  case Nil
  then show ?case by simp
next
  case (Cons p ps)
  let ?m1 = "Map_set m (fst p) (orZero (Map_get m (fst p)) + snd p)"
  have p: "snd p \<noteq> NaN" and ps: "NaN \<notin> snd ` set ps"
    using Cons.prems by auto
  have new: "orZero (Some (orZero (Map_get m (fst p)) + snd p)) = orZero (Map_get m (fst p)) + snd p"
    by (rule orZero_Some) (simp add: add_not_NaN p)
  show ?case
    using Cons.IH [OF ps, of ?m1] new
    by (auto simp: Map_get_Map_set filter_key_absent)
qed

lemma alist_by_keys: "distinct (map fst M) \<Longrightarrow> M = map (\<lambda>k. (k, the (Map_get M k))) (map fst M)"
proof (induction M)
  case Nil
  then show ?case by simp
next
  case (Cons a M)
  obtain k v where a: "a = (k, v)" by (cases a)
  from Cons.prems have k: "k \<notin> fst ` set M" and d: "distinct (map fst M)"
    by (simp_all add: a)
  have "map (\<lambda>k'. (k', the (Map_get ((k, v) # M) k'))) (map fst M) =
        map (\<lambda>k'. (k', the (Map_get M k'))) (map fst M)"
    using k by (intro map_cong [OF refl]) auto
  with Cons.IH [OF d] show ?case
    by (simp add: a)
qed

lemma accumulate_closed:
  assumes "NaN \<notin> snd ` set ps"
  shows "accumulate ps [] =
           map (\<lambda>d. (d, sumInOrder (map snd (filter (\<lambda>p. fst p = d) ps)))) (inOrder (map fst ps))"
proof -
  let ?M = "accumulate ps []"
  have keys: "map fst ?M = inOrder (map fst ps)"
    by (simp add: keys_accumulate_list inOrder_def)
  have "distinct (map fst ?M)"
    by (rule distinct_accumulate) simp
  then have "?M = map (\<lambda>k. (k, the (Map_get ?M k))) (map fst ?M)"
    by (rule alist_by_keys)
  also have "\<dots> = map (\<lambda>d. (d, sumInOrder (map snd (filter (\<lambda>p. fst p = d) ps)))) (map fst ?M)"
  proof (rule map_cong [OF refl])
    fix d assume "d \<in> set (map fst ?M)"
    then have "d \<in> fst ` set ps"
      using keys_accumulate [of ps "[]"] by simp
    then show "(d, the (Map_get ?M d)) = (d, sumInOrder (map snd (filter (\<lambda>p. fst p = d) ps)))"
      by (simp add: Map_get_accumulate [OF assms] sumInOrder_def)
  qed
  finally show ?thesis
    unfolding keys .
qed

subsection \<open>The two passes\<close>

lemma markDay_fold:
  "fold markDay es (v, s) = (v', s') \<Longrightarrow>
     set v' = set v \<union> set (datesOfKind Vacation es) \<and>
     set s' = set s \<union> set (datesOfKind Sick es) \<and>
     (distinct v \<longrightarrow> distinct v') \<and> (distinct s \<longrightarrow> distinct s')"
proof (induction es arbitrary: v s)
  case Nil
  then show ?case by (simp add: datesOfKind_def)
next
  case (Cons e es)
  obtain v1 s1 where step: "markDay e (v, s) = (v1, s1)"
    by (cases "markDay e (v, s)")
  with Cons.prems have "fold markDay es (v1, s1) = (v', s')" by simp
  from Cons.IH [OF this] have ih:
    "set v' = set v1 \<union> set (datesOfKind Vacation es)"
    "set s' = set s1 \<union> set (datesOfKind Sick es)"
    "distinct v1 \<longrightarrow> distinct v'" "distinct s1 \<longrightarrow> distinct s'"
    by auto
  have v1: "set v1 = set v \<union> set (datesOfKind Vacation [e])" "distinct v \<longrightarrow> distinct v1"
    using step
    by (auto simp: markDay_def Let_def datesOfKind_def kindOf_Vacation set_Set_add
        distinct_Set_add split: if_splits)
  have s1: "set s1 = set s \<union> set (datesOfKind Sick [e])" "distinct s \<longrightarrow> distinct s1"
    using step
    by (auto simp: markDay_def Let_def datesOfKind_def kindOf_Sick set_Set_add
        distinct_Set_add split: if_splits)
  show ?case
    using ih v1 s1 by (auto simp: datesOfKind_def)
qed

lemma markDay_sets:
  assumes "fold markDay es ([], []) = (v, s)"
  shows "set v = set (datesOfKind Vacation es)" "set s = set (datesOfKind Sick es)"
    "distinct v" "distinct s"
    "(Set_has v d \<or> Set_has s d) = flagged es d"
  using markDay_fold [OF assms] by (auto simp: Set_has_def flagged_def)

lemma fold_addDeployment:
  "fold (addDeployment d) deps m = accumulate (map (\<lambda>dep. (d, deploymentHours dep)) deps) m"
  by (induction deps arbitrary: m) (simp_all add: addDeployment_def deploymentHours_def Let_def)

lemma processEntry_work:
  assumes "\<And>d. (Set_has v d \<or> Set_has s d) = P d"
  shows "workHoursByDay (processEntry v s e acc) = accumulate (workPairs P [e]) (workHoursByDay acc)"
  using assms [of "date e"]
  by (simp add: processEntry_def workPairs_def Let_def kindOf_OnCall kindOf_Pause entryHours_def)

lemma processEntry_deployments:
  assumes "\<And>d. (Set_has v d \<or> Set_has s d) = P d"
  shows "deploymentHoursByDay (processEntry v s e acc) =
           accumulate (deploymentPairs P [e]) (deploymentHoursByDay acc)"
  using assms [of "date e"]
  by (simp add: processEntry_def deploymentPairs_def Let_def kindOf_OnCall fold_addDeployment
      deploymentsOf_def split: option.splits)

lemma processEntry_onCall:
  assumes "\<And>d. (Set_has v d \<or> Set_has s d) = P d"
  shows "onCallSet (processEntry v s e acc) =
           fold (\<lambda>d st. Set_add st d) (onCallDates P [e]) (onCallSet acc)"
  using assms [of "date e"]
  by (simp add: processEntry_def onCallDates_def Let_def kindOf_OnCall)

lemma workPairs_Cons: "workPairs P (e # xs) = workPairs P [e] @ workPairs P xs"
  by (simp add: workPairs_def)

lemma deploymentPairs_Cons: "deploymentPairs P (e # xs) = deploymentPairs P [e] @ deploymentPairs P xs"
  by (simp add: deploymentPairs_def)

lemma onCallDates_Cons: "onCallDates P (e # xs) = onCallDates P [e] @ onCallDates P xs"
  by (simp add: onCallDates_def)

lemma fold_processEntry:
  assumes "\<And>d. (Set_has v d \<or> Set_has s d) = P d"
  shows "workHoursByDay (fold (processEntry v s) xs acc) = accumulate (workPairs P xs) (workHoursByDay acc)"
    and "deploymentHoursByDay (fold (processEntry v s) xs acc) =
           accumulate (deploymentPairs P xs) (deploymentHoursByDay acc)"
    and "onCallSet (fold (processEntry v s) xs acc) =
           fold (\<lambda>d st. Set_add st d) (onCallDates P xs) (onCallSet acc)"
proof (induction xs arbitrary: acc)
  case Nil
  {
    case 1 show ?case by (simp add: workPairs_def)
  next
    case 2 show ?case by (simp add: deploymentPairs_def)
  next
    case 3 show ?case by (simp add: onCallDates_def)
  }
next
  case (Cons e xs)
  {
    case 1 show ?case
      by (subst workPairs_Cons) (simp add: Cons.IH(1) processEntry_work [OF assms])
  next
    case 2 show ?case
      by (subst deploymentPairs_Cons) (simp add: Cons.IH(2) processEntry_deployments [OF assms])
  next
    case 3 show ?case
      by (subst onCallDates_Cons) (simp add: Cons.IH(3) processEntry_onCall [OF assms])
  }
qed

lemma fold_Set_add:
  "set (fold (\<lambda>d st. Set_add st d) ds st) = set st \<union> set ds \<and>
   (distinct st \<longrightarrow> distinct (fold (\<lambda>d st. Set_add st d) ds st))"
  by (induction ds arbitrary: st) (auto simp: set_Set_add distinct_Set_add)

lemma fold_addWorkDay:
  "fold (addWorkDay ms) m (c, mo, w) =
     (foldl (+) c (map (\<lambda>p. snd p - Num 8) m),
      foldl (+) mo (map (\<lambda>p. snd p - Num 8) (filter (\<lambda>p. startsWith (fst p) ms) m)),
      foldl (+) w (map snd m))"
  by (induction m arbitrary: c mo w) (auto simp: addWorkDay_def Let_def)

lemma fold_addDeploymentDay:
  "fold (addDeploymentDay ms) m (c, mo, w) =
     (foldl (+) c (map snd m),
      foldl (+) mo (map snd (filter (\<lambda>p. startsWith (fst p) ms) m)),
      foldl (+) w (map snd m))"
  by (induction m arbitrary: c mo w) (auto simp: addDeploymentDay_def)

subsection \<open>The totals in closed form\<close>

lemma js_less_not_NaN: "js_less (Num 0) h \<Longrightarrow> h \<noteq> NaN"
  by (cases h) simp_all

lemma workPairs_not_NaN: "NaN \<notin> snd ` set (workPairs P xs)"
  by (auto simp: workPairs_def js_less_not_NaN)

lemma flagged_own_date:
  "e \<in> set es \<Longrightarrow> kindOf e = Vacation \<or> kindOf e = Sick \<Longrightarrow> flagged es (date e)"
  by (auto simp: flagged_def datesOfKind_def)

lemma workPairs_flagged:
  "workPairs (flagged es) es = map (\<lambda>e. (date e, entryHours e)) (countedRegular es)"
proof -
  have "filter (\<lambda>e. \<not> flagged es (date e) \<and> kindOf e \<noteq> OnCall \<and> kindOf e \<noteq> Pause \<and>
                  js_less (Num 0) (entryHours e)) es = countedRegular es"
    unfolding countedRegular_def
  proof (rule filter_cong [OF refl])
    fix e assume "e \<in> set es"
    then show "(\<not> flagged es (date e) \<and> kindOf e \<noteq> OnCall \<and> kindOf e \<noteq> Pause \<and>
                 js_less (Num 0) (entryHours e)) =
               (kindOf e = Regular \<and> \<not> flagged es (date e) \<and> js_less (Num 0) (entryHours e))"
      using flagged_own_date [of e es] by (cases "kindOf e") auto
  qed
  then show ?thesis by (simp add: workPairs_def)
qed

lemma deploymentPairs_flagged:
  "deploymentPairs (flagged es) es =
     concat (map (\<lambda>e. map (\<lambda>dep. (date e, deploymentHours dep)) (deploymentsOf e)) (countedOnCall es))"
proof -
  have "filter (\<lambda>e. \<not> flagged es (date e) \<and> kindOf e = OnCall) es = countedOnCall es"
    unfolding countedOnCall_def by (rule filter_cong) auto
  then show ?thesis by (simp add: deploymentPairs_def)
qed

lemma onCallDates_flagged: "onCallDates (flagged es) es = map date (countedOnCall es)"
proof -
  have "filter (\<lambda>e. \<not> flagged es (date e) \<and> kindOf e = OnCall) es = countedOnCall es"
    unfolding countedOnCall_def by (rule filter_cong) auto
  then show ?thesis by (simp add: onCallDates_def)
qed

lemma values_deployments:
  "snd ` set (concat (map (\<lambda>e. map (\<lambda>dep. (date e, deploymentHours dep)) (deploymentsOf e)) xs)) =
     set (concat (map (\<lambda>e. map deploymentHours (deploymentsOf e)) xs))"
  by (induction xs) (auto simp: image_Un image_image)

lemma keys_deployments:
  "fold (\<lambda>k s. Set_add s k)
     (map fst (concat (map (\<lambda>e. map (\<lambda>dep. (date e, deploymentHours dep)) (deploymentsOf e)) xs))) s =
   fold (\<lambda>k s. Set_add s k) (map date (filter (\<lambda>e. deploymentsOf e \<noteq> []) xs)) s"
proof (induction xs arbitrary: s)
  case Nil
  then show ?case by simp
next
  case (Cons e xs)
  have one: "fold (\<lambda>k s. Set_add s k) (map (\<lambda>dep. d) ds) s = (if ds = [] then s else Set_add s d)"
    for ds :: "deployment list" and d :: string and s
    by (induction ds arbitrary: s) (simp_all add: Set_add_twice)
  show ?case
    using Cons.IH by (simp add: one o_def)
qed

lemma hours_deployments:
  "map snd (filter (\<lambda>p. fst p = d)
     (concat (map (\<lambda>e. map (\<lambda>dep. (date e, deploymentHours dep)) (deploymentsOf e)) xs))) =
   concat (map (\<lambda>e. map deploymentHours (deploymentsOf e)) (filter (\<lambda>e. date e = d) xs))"
  by (induction xs) (simp_all add: filter_map o_def)

text \<open>The two maps of hours, as the second pass leaves them.\<close>

lemma work_map:
  "accumulate (workPairs (flagged es) es) [] =
     map (\<lambda>d. (d, regularHoursOn es d)) (regularDayList es)"
  unfolding accumulate_closed [OF workPairs_not_NaN]
  by (simp add: workPairs_flagged regularHoursOn_def regularDayList_def filter_map o_def)

lemma deployment_map:
  assumes "NaN \<notin> set (onCallHours es)"
  shows "accumulate (deploymentPairs (flagged es) es) [] =
           map (\<lambda>d. (d, deploymentHoursOn es d)) (deploymentDayList es)"
proof -
  have "snd ` set (deploymentPairs (flagged es) es) = set (onCallHours es)"
    unfolding deploymentPairs_flagged onCallHours_def by (rule values_deployments)
  with assms have nan: "NaN \<notin> snd ` set (deploymentPairs (flagged es) es)"
    by simp
  show ?thesis
    unfolding accumulate_closed [OF nan]
    by (simp add: deploymentPairs_flagged hours_deployments deploymentHoursOn_def
        deploymentDayList_def inOrder_def keys_deployments)
qed

lemma summaryMetrics_days:
  "vacationDays (summaryMetrics es b now) = card (set (datesOfKind Vacation es))"
  "sickDays (summaryMetrics es b now) = card (set (datesOfKind Sick es))"
  "onCallDays (summaryMetrics es b now) = card (set (map date (countedOnCall es)))"
proof -
  obtain v s where vs: "fold markDay es ([], []) = (v, s)"
    by (cases "fold markDay es ([], [])")
  note sets = markDay_sets [OF vs]
  have flags: "\<And>d. (Set_has v d \<or> Set_has s d) = flagged es d"
    by (rule sets(5))
  let ?acc = "fold (processEntry v s) es \<lparr>onCallSet = [], workHoursByDay = [], deploymentHoursByDay = []\<rparr>"
  have oc: "set (onCallSet ?acc) = set (map date (countedOnCall es))" "distinct (onCallSet ?acc)"
    using fold_Set_add [of "onCallDates (flagged es) es" "[]"]
    by (simp_all add: fold_processEntry(3) [OF flags] onCallDates_flagged)
  show "vacationDays (summaryMetrics es b now) = card (set (datesOfKind Vacation es))"
    using distinct_card [OF sets(3)] sets(1)
    by (simp add: summaryMetrics_def vs Let_def Set_size_def split_beta)
  show "sickDays (summaryMetrics es b now) = card (set (datesOfKind Sick es))"
    using distinct_card [OF sets(4)] sets(2)
    by (simp add: summaryMetrics_def vs Let_def Set_size_def split_beta)
  show "onCallDays (summaryMetrics es b now) = card (set (map date (countedOnCall es)))"
    using oc distinct_card [OF oc(2)]
    by (simp add: summaryMetrics_def vs Let_def Set_size_def split_beta)
qed

lemma summaryMetrics_hourTotals:
  "totalOvertime (summaryMetrics es b now) =
     fst (hourTotals (currentMonthStr now) (workPairs (flagged es) es) (deploymentPairs (flagged es) es)) + b"
  "currentMonthOvertime (summaryMetrics es b now) =
     fst (snd (hourTotals (currentMonthStr now) (workPairs (flagged es) es) (deploymentPairs (flagged es) es)))"
  "totalWorkHours (summaryMetrics es b now) =
     snd (snd (hourTotals (currentMonthStr now) (workPairs (flagged es) es) (deploymentPairs (flagged es) es)))"
proof -
  obtain v s where vs: "fold markDay es ([], []) = (v, s)"
    by (cases "fold markDay es ([], [])")
  have flags: "\<And>d. (Set_has v d \<or> Set_has s d) = flagged es d"
    by (rule markDay_sets(5) [OF vs])
  note fp = fold_processEntry [OF flags]
  show "totalOvertime (summaryMetrics es b now) =
     fst (hourTotals (currentMonthStr now) (workPairs (flagged es) es) (deploymentPairs (flagged es) es)) + b"
    by (simp add: summaryMetrics_def vs Let_def fp hourTotals_def split_beta)
  show "currentMonthOvertime (summaryMetrics es b now) =
     fst (snd (hourTotals (currentMonthStr now) (workPairs (flagged es) es) (deploymentPairs (flagged es) es)))"
    by (simp add: summaryMetrics_def vs Let_def fp hourTotals_def split_beta)
  show "totalWorkHours (summaryMetrics es b now) =
     snd (snd (hourTotals (currentMonthStr now) (workPairs (flagged es) es) (deploymentPairs (flagged es) es)))"
    by (simp add: summaryMetrics_def vs Let_def fp hourTotals_def split_beta)
qed

text \<open>The totals as the two loops over the maps form them, whatever the maps hold.\<close>

lemma totals_raw:
  "totalOvertime (summaryMetrics es b now) =
     foldl (+)
       (foldl (+) (Num 0) (map (\<lambda>p. snd p - Num 8) (accumulate (workPairs (flagged es) es) [])))
       (map snd (accumulate (deploymentPairs (flagged es) es) [])) + b"
  "totalWorkHours (summaryMetrics es b now) =
     foldl (+)
       (foldl (+) (Num 0) (map snd (accumulate (workPairs (flagged es) es) [])))
       (map snd (accumulate (deploymentPairs (flagged es) es) []))"
  by (simp_all add: summaryMetrics_hourTotals hourTotals_def fold_addWorkDay fold_addDeploymentDay)

lemma summaryMetrics_totalOvertime:
  assumes "NaN \<notin> set (onCallHours es)"
  shows "totalOvertime (summaryMetrics es b now) =
           foldl (+) (sumInOrder (map (\<lambda>d. regularHoursOn es d - Num 8) (regularDayList es)))
             (map (deploymentHoursOn es) (deploymentDayList es)) + b"
  by (simp add: totals_raw(1) work_map deployment_map [OF assms] o_def sumInOrder_def)

lemma flagged_unflaggedEntries: "flagged (unflaggedEntries es) d = False"
proof -
  have "kindOf e = Vacation \<or> kindOf e = Sick \<Longrightarrow> e \<notin> set (unflaggedEntries es)" for e
    using flagged_own_date [of e es] by (auto simp: unflaggedEntries_def)
  then show ?thesis
    by (auto simp: flagged_def datesOfKind_def)
qed

lemma pairs_unflaggedEntries:
  "workPairs (flagged (unflaggedEntries es)) (unflaggedEntries es) = workPairs (flagged es) es"
  "deploymentPairs (flagged (unflaggedEntries es)) (unflaggedEntries es) = deploymentPairs (flagged es) es"
proof -
  have f: "flagged (unflaggedEntries es) = (\<lambda>d. False)"
    by (rule ext) (rule flagged_unflaggedEntries)
  show "workPairs (flagged (unflaggedEntries es)) (unflaggedEntries es) = workPairs (flagged es) es"
    unfolding f by (simp add: workPairs_def unflaggedEntries_def conj_commute conj_left_commute)
  show "deploymentPairs (flagged (unflaggedEntries es)) (unflaggedEntries es) = deploymentPairs (flagged es) es"
    unfolding f by (simp add: deploymentPairs_def unflaggedEntries_def conj_commute conj_left_commute)
qed

lemma flagged_perm: "set xs = set ys \<Longrightarrow> flagged xs = flagged ys"
  by (rule ext) (simp add: flagged_def datesOfKind_def)

lemma perm_days:
  assumes "mset es' = mset es"
  shows "set (datesOfKind k es') = set (datesOfKind k es)"
    and "date ` set (countedOnCall es') = date ` set (countedOnCall es)"
proof -
  have s: "set es' = set es"
    using assms by (rule mset_eq_setD)
  note f = flagged_perm [OF s]
  show "set (datesOfKind k es') = set (datesOfKind k es)"
    by (simp add: datesOfKind_def s)
  show "date ` set (countedOnCall es') = date ` set (countedOnCall es)"
    by (simp add: countedOnCall_def f s)
qed

subsection \<open>The examples\<close>

lemma calculateHours_unparsed:
  assumes "s \<noteq> []" and "e \<noteq> []" and "parseTime s = None \<or> parseTime e = None"
  shows "calculateHours s e = NaN"
proof -
  have "js_divide (x - y) (Num (1000 * 60 * 60)) = NaN \<and> \<not> js_less_eq x y"
    if "x = NaN \<or> y = NaN" for x y
    using that by (cases x; cases y) simp_all
  then show ?thesis
    using assms unfolding calculateHours_def newDate_time
    by (auto simp: Let_def split: option.splits)
qed

lemma example_times:
  "parseTime ''09:00'' = Some 540" "parseTime ''10:00'' = Some 600"
  "parseTime ''11:00'' = Some 660" "parseTime ''12:00'' = Some 720"
  "parseTime ''13:00'' = Some 780" "parseTime ''17:00'' = Some 1020"
  "parseTime ''18:30'' = Some 1110" "parseTime ''22:00'' = Some 1320"
  "parseTime ''23:00'' = Some 1380" "parseTime ''02:00'' = Some 120"
  "parseTime ''01:00'' = Some 60" "parseTime ''25:00'' = None" "parseTime ''26:00'' = None"
  "parseTime ''09:06'' = Some 546" "parseTime ''09:18'' = Some 558" "parseTime ''09:36'' = Some 576"
  "parseTime ''03:12'' = Some 192" "parseTime ''15:41'' = Some 941" "parseTime ''19:53'' = Some 1193"
  "parseTime ''20:08'' = Some 1208" "parseTime ''17:19'' = Some 1039" "parseTime ''19:09'' = Some 1149"
  by (simp_all add: parseTime_def twoDigits_def digitValue_def digitTable_def)

lemma example_hours:
  "calculateHours ''09:00'' ''12:00'' = Num 3"
  "calculateHours ''13:00'' ''18:30'' = Num (11 / 2)"
  "calculateHours ''10:00'' ''12:00'' = Num 2"
  "calculateHours ''22:00'' ''23:00'' = Num 1"
  "calculateHours ''02:00'' ''01:00'' = Num 0"
  "calculateHours ''10:00'' ''11:00'' = Num 1"
  "calculateHours ''25:00'' ''26:00'' = NaN"
  "calculateHours ''09:00'' ''09:06'' = Num (1 / 10)"
  "calculateHours ''09:06'' ''09:18'' = Num (1 / 5)"
  "calculateHours ''09:18'' ''09:36'' = Num (3 / 10)"
  "calculateHours ''03:12'' ''15:41'' = Num (749 / 60)"
  "calculateHours ''19:53'' ''20:08'' = Num (1 / 4)"
  "calculateHours ''17:19'' ''19:09'' = Num (11 / 6)"
  by (simp_all add: calculateHours_parsed example_times calculateHours_unparsed)

lemma example_kinds:
  "kindOf morningShift = Regular" "kindOf afternoonShift = Regular" "kindOf nightCall = OnCall"
  "kindOf holiday = Vacation" "kindOf holidayShift = Regular" "kindOf holidayCall = OnCall"
  "kindOf brokenCall = OnCall" "kindOf soundCall = OnCall"
  "kindOf sixMinutes = Regular" "kindOf twelveMinutes = Regular" "kindOf eighteenMinutes = Regular"
  "kindOf longDay = Regular" "kindOf shortDay = Regular" "kindOf midDay = Regular"
  by code_simp+

lemma example_dates:
  "date morningShift = ''2024-05-06''" "date afternoonShift = ''2024-05-06''"
  "date nightCall = ''2024-05-07''" "date holiday = ''2024-05-08''"
  "date holidayShift = ''2024-05-08''" "date holidayCall = ''2024-05-08''"
  "date brokenCall = ''2024-05-07''" "date soundCall = ''2024-05-07''"
  "date sixMinutes = ''2024-05-06''" "date twelveMinutes = ''2024-05-06''"
  "date eighteenMinutes = ''2024-05-06''"
  "date longDay = ''2024-05-06''" "date shortDay = ''2024-05-07''" "date midDay = ''2024-05-08''"
  by (simp_all add: morningShift_def afternoonShift_def nightCall_def holiday_def
      holidayShift_def holidayCall_def brokenCall_def soundCall_def plainEntry_def onCallEntry_def
      sixMinutes_def twelveMinutes_def eighteenMinutes_def longDay_def shortDay_def midDay_def)

lemma example_entryHours:
  "entryHours morningShift = Num 3" "entryHours afternoonShift = Num (11 / 2)"
  "entryHours sixMinutes = Num (1 / 10)" "entryHours twelveMinutes = Num (1 / 5)"
  "entryHours eighteenMinutes = Num (3 / 10)"
  "entryHours longDay = Num (749 / 60)" "entryHours shortDay = Num (1 / 4)"
  "entryHours midDay = Num (11 / 6)"
  by (simp_all add: entryHours_def morningShift_def afternoonShift_def plainEntry_def example_hours
      sixMinutes_def twelveMinutes_def eighteenMinutes_def longDay_def shortDay_def midDay_def)

lemma example_deployments:
  "deploymentsOf nightCall = [deploymentAt ''4'' ''22:00'' ''23:00'', deploymentAt ''5'' ''02:00'' ''01:00'']"
  "deploymentsOf brokenCall = [deploymentAt ''2'' ''25:00'' ''26:00'']"
  "deploymentsOf soundCall = [deploymentAt ''4'' ''10:00'' ''11:00'']"
  by (simp_all add: deploymentsOf_def nightCall_def brokenCall_def soundCall_def onCallEntry_def
      plainEntry_def)

lemma example_deploymentHours:
  "deploymentHours (deploymentAt ''4'' ''22:00'' ''23:00'') = Num 1"
  "deploymentHours (deploymentAt ''5'' ''02:00'' ''01:00'') = Num 0"
  "deploymentHours (deploymentAt ''2'' ''25:00'' ''26:00'') = NaN"
  "deploymentHours (deploymentAt ''4'' ''10:00'' ''11:00'') = Num 1"
  by (simp_all add: deploymentHours_def deploymentAt_def example_hours)

lemma exampleWeek_flagged:
  "\<not> flagged exampleWeek ''2024-05-06''" "\<not> flagged exampleWeek ''2024-05-07''"
  "flagged exampleWeek ''2024-05-08''"
  by (simp_all add: flagged_def datesOfKind_def exampleWeek_def example_kinds example_dates)

lemma exampleWeek_counted:
  "countedRegular exampleWeek = [morningShift, afternoonShift]"
  "countedOnCall exampleWeek = [nightCall]"
  by (simp_all add: countedRegular_def countedOnCall_def exampleWeek_def example_kinds
      example_dates exampleWeek_flagged [unfolded exampleWeek_def] example_entryHours)

lemma exampleWeek_onCallHours: "onCallHours exampleWeek = [Num 1, Num 0]"
  by (simp add: onCallHours_def exampleWeek_counted example_deployments example_deploymentHours)

text \<open>The sums of doubles that the examples take, and the differences.\<close>

lemma example_sums:
  "Num 0 + Num 3 = Num 3"
  "Num 3 + Num (11 / 2) = Num (17 / 2)"
  "Num (17 / 2) - Num 8 = Num (1 / 2)"
  "Num 0 + Num (1 / 2) = Num (1 / 2)"
  "Num 0 + Num 1 = Num 1"
  "Num 1 + Num 0 = Num 1"
  "Num (1 / 2) + Num 1 = Num (3 / 2)"
  "Num (3 / 2) + Num 2 = Num (7 / 2)"
  by code_simp+

lemma short_tasks_sums:
  "Num 0 + Num (1 / 10) = Num (3602879701896397 / 36028797018963968)"
  "Num (3602879701896397 / 36028797018963968) + Num (1 / 5) = Num (1351079888211149 / 4503599627370496)"
  "Num (1351079888211149 / 4503599627370496) + Num (3 / 10) = Num (1351079888211149 / 2251799813685248)"
  "Num 0 + Num (1351079888211149 / 2251799813685248) = Num (1351079888211149 / 2251799813685248)"
  "Num 0 + Num (3 / 10) = Num (5404319552844595 / 18014398509481984)"
  "Num (5404319552844595 / 18014398509481984) + Num (1 / 5) = Num (1 / 2)"
  "Num (1 / 2) + Num (1 / 10) = Num (5404319552844595 / 9007199254740992)"
  "Num 0 + Num (5404319552844595 / 9007199254740992) = Num (5404319552844595 / 9007199254740992)"
  by code_simp+

lemma three_days_sums:
  "Num 0 + Num (749 / 60) = Num (7027491918542711 / 562949953421312)"
  "Num (7027491918542711 / 562949953421312) - Num 8 = Num (2523892291172215 / 562949953421312)"
  "Num 0 + Num (1 / 4) = Num (1 / 4)"
  "Num (1 / 4) - Num 8 = Num (- (31 / 4))"
  "Num 0 + Num (11 / 6) = Num (8256599316845909 / 4503599627370496)"
  "Num (8256599316845909 / 4503599627370496) - Num 8 = Num (- (6943049425529515 / 1125899906842624))"
  "Num 0 + Num (2523892291172215 / 562949953421312) = Num (2523892291172215 / 562949953421312)"
  "Num (2523892291172215 / 562949953421312) + Num (- (31 / 4)) = Num (- (1838969847842953 / 562949953421312))"
  "Num (- (1838969847842953 / 562949953421312)) + Num (- (6943049425529515 / 1125899906842624)) =
     Num (- (2655247280303855 / 281474976710656))"
  "Num (- (2655247280303855 / 281474976710656)) + Num 0 = Num (- (2655247280303855 / 281474976710656))"
  "Num 0 + Num (- (6943049425529515 / 1125899906842624)) = Num (- (6943049425529515 / 1125899906842624))"
  "Num (- (6943049425529515 / 1125899906842624)) + Num (- (31 / 4)) = Num (- (3917193425889963 / 281474976710656))"
  "Num (- (3917193425889963 / 281474976710656)) + Num (2523892291172215 / 562949953421312) =
     Num (- (5310494560607711 / 562949953421312))"
  "Num (- (5310494560607711 / 562949953421312)) + Num 0 = Num (- (5310494560607711 / 562949953421312))"
  by code_simp+

lemma calls_not_flagged: "\<not> flagged [x, y] d" if "kindOf x = OnCall" "kindOf y = OnCall"
  using that by (simp add: flagged_def datesOfKind_def)

lemma regulars_not_flagged:
  "\<not> flagged [x, y, z] d" if "kindOf x = Regular" "kindOf y = Regular" "kindOf z = Regular"
  using that by (simp add: flagged_def datesOfKind_def)

lemma two_calls_overtime:
  "totalOvertime (summaryMetrics [brokenCall, soundCall] (Num 0) exampleNow) = Num 1"
  "totalOvertime (summaryMetrics [soundCall, brokenCall] (Num 0) exampleNow) = NaN"
  by (simp_all add: totals_raw workPairs_def deploymentPairs_def example_kinds
      example_dates calls_not_flagged example_deployments example_deploymentHours example_sums
      del: plus_number.simps)

lemma short_tasks_hours:
  "totalWorkHours (summaryMetrics [sixMinutes, twelveMinutes, eighteenMinutes] (Num 0) exampleNow) =
     Num (1351079888211149 / 2251799813685248)"
  "totalWorkHours (summaryMetrics [eighteenMinutes, twelveMinutes, sixMinutes] (Num 0) exampleNow) =
     Num (5404319552844595 / 9007199254740992)"
  by (simp_all add: totals_raw workPairs_def deploymentPairs_def example_kinds example_dates
      regulars_not_flagged example_entryHours short_tasks_sums
      del: plus_number.simps)

lemma three_days_overtime:
  "totalOvertime (summaryMetrics [longDay, shortDay, midDay] (Num 0) exampleNow) =
     Num (- 2655247280303855 / 281474976710656)"
  "totalOvertime (summaryMetrics [midDay, shortDay, longDay] (Num 0) exampleNow) =
     Num (- 5310494560607711 / 562949953421312)"
  by (simp_all add: totals_raw workPairs_def deploymentPairs_def example_kinds example_dates
      regulars_not_flagged example_entryHours three_days_sums
      del: plus_number.simps minus_number.simps)

subsection \<open>The claims about the summary\<close>

text \<open>
  Claim C1.  The entries dated a day that is flagged (a day on which some entry is a
  vacation or a sickness) contribute nothing to the total work hours, to the total
  overtime and to the overtime of the current month: the three figures are what they are
  for the collection without these entries, whatever regular or on-call entries, with
  whatever deployments, the flagged days carry.
\<close>

theorem flagged_days_contribute_nothing:
  "totalWorkHours (summaryMetrics es b now) =
     totalWorkHours (summaryMetrics (unflaggedEntries es) b now) \<and>
   totalOvertime (summaryMetrics es b now) =
     totalOvertime (summaryMetrics (unflaggedEntries es) b now) \<and>
   currentMonthOvertime (summaryMetrics es b now) =
     currentMonthOvertime (summaryMetrics (unflaggedEntries es) b now)"
  by (simp add: summaryMetrics_hourTotals pairs_unflaggedEntries)

text \<open>
  On the day of vacation that also carries eight regular hours and a deployment, nothing
  is left, and the figures are those of the empty timesheet.
\<close>

theorem flagged_days_contribute_nothing_witness:
  "unflaggedEntries vacationDay = [] \<and>
   totalWorkHours (summaryMetrics vacationDay (Num 2) exampleNow) = Num 0 \<and>
   totalOvertime (summaryMetrics vacationDay (Num 2) exampleNow) = Num 2 \<and>
   currentMonthOvertime (summaryMetrics vacationDay (Num 2) exampleNow) = Num 0"
proof -
  have u: "unflaggedEntries vacationDay = []"
    by code_simp
  have "totalWorkHours (summaryMetrics [] (Num 2) exampleNow) = Num 0"
    and "totalOvertime (summaryMetrics [] (Num 2) exampleNow) = Num 2"
    and "currentMonthOvertime (summaryMetrics [] (Num 2) exampleNow) = Num 0"
    by code_simp+
  then show ?thesis
    using flagged_days_contribute_nothing [of vacationDay "Num 2" exampleNow]
    by (simp add: u)
qed

text \<open>
  Claim C2, as amended.  When the hours of every deployment that counts are a number
  (its times are empty or valid), the total overtime is formed by these additions of
  doubles, in this order: starting from 0, for every day that has regular hours and is
  not flagged, in the order of the first regular entries of the days, the regular hours
  of the day minus 8; then, for every day with deployments of on-call entries that is
  not flagged, in the order of the first such entries of the days, the deployment hours
  of the day; then the base overtime.  The regular hours of a day are the hours of its
  regular entries and the deployment hours of a day are the hours of its deployments,
  each added from 0 in the order of the entries.  The 8 hours are subtracted once per
  day, from the sum of the regular entries of the day; the deployment hours are added as
  they are.
\<close>

theorem totalOvertime_ordered_sum:
  assumes "NaN \<notin> set (onCallHours es)"
  shows "totalOvertime (summaryMetrics es b now) =
           foldl (+) (sumInOrder (map (\<lambda>d. regularHoursOn es d - Num 8) (regularDayList es)))
             (map (deploymentHoursOn es) (deploymentDayList es)) + b"
  using assms by (rule summaryMetrics_totalOvertime)

text \<open>
  In the example week the one day with regular hours has 8.5 of them, the deployments
  of the one on-call day add one hour, and with a base overtime of 2 the total is 3.5.
\<close>

theorem totalOvertime_ordered_sum_witness:
  "NaN \<notin> set (onCallHours exampleWeek) \<and>
   regularDayList exampleWeek = [''2024-05-06''] \<and>
   regularHoursOn exampleWeek ''2024-05-06'' = Num (17 / 2) \<and>
   deploymentDayList exampleWeek = [''2024-05-07''] \<and>
   deploymentHoursOn exampleWeek ''2024-05-07'' = Num 1 \<and>
   totalOvertime (summaryMetrics exampleWeek (Num 2) exampleNow) = Num (7 / 2)"
proof -
  have h: "NaN \<notin> set (onCallHours exampleWeek)"
    by (simp add: exampleWeek_onCallHours)
  have d: "regularDayList exampleWeek = [''2024-05-06'']"
    by (simp add: regularDayList_def inOrder_def Set_add_def exampleWeek_counted example_dates)
  have r: "regularHoursOn exampleWeek ''2024-05-06'' = Num (17 / 2)"
    by (simp add: regularHoursOn_def sumInOrder_def exampleWeek_counted example_dates
        example_entryHours example_sums del: plus_number.simps)
  have c: "deploymentDayList exampleWeek = [''2024-05-07'']"
    by (simp add: deploymentDayList_def inOrder_def Set_add_def exampleWeek_counted example_dates
        example_deployments)
  have s: "deploymentHoursOn exampleWeek ''2024-05-07'' = Num 1"
    by (simp add: deploymentHoursOn_def sumInOrder_def exampleWeek_counted example_dates
        example_deployments example_deploymentHours example_sums del: plus_number.simps)
  have "totalOvertime (summaryMetrics exampleWeek (Num 2) exampleNow) = Num (7 / 2)"
    using totalOvertime_ordered_sum [OF h, of "Num 2" exampleNow]
    by (simp add: d r c s sumInOrder_def example_sums del: plus_number.simps minus_number.simps)
  with h d r c s show ?thesis by blast
qed

text \<open>
  The claim as stated fails in two ways.  Where a deployment has no valid time, its
  hours are \<open>NaN\<close>, which the next deployment of the day resets to 0 (\<open>NaN || 0\<close>): the
  total is 1 where the sum of the deployment hours is \<open>NaN\<close>, in whichever order they
  are added.  And the total is a sum of doubles, which the order of the additions
  decides: three days with one regular entry each give a total overtime of
  -9.433333333333334 when the entries are held in one order and of -9.433333333333335
  when they are held in the opposite order, so that no sum that the days alone
  determine is the total.
\<close>

theorem totalOvertime_sum_counterexample:
  "totalOvertime (summaryMetrics [brokenCall, soundCall] (Num 0) exampleNow) = Num 1 \<and>
   onCallHours [brokenCall, soundCall] = [NaN, Num 1] \<and>
   sumInOrder [NaN, Num 1] = NaN \<and> sumInOrder [Num 1, NaN] = NaN \<and>
   totalOvertime (summaryMetrics [longDay, shortDay, midDay] (Num 0) exampleNow) =
     Num (- 2655247280303855 / 281474976710656) \<and>
   totalOvertime (summaryMetrics [midDay, shortDay, longDay] (Num 0) exampleNow) =
     Num (- 5310494560607711 / 562949953421312)"
proof -
  have "onCallHours [brokenCall, soundCall] = [NaN, Num 1]"
    by (simp add: onCallHours_def countedOnCall_def example_kinds calls_not_flagged
        example_deployments example_deploymentHours)
  moreover have "sumInOrder [NaN, Num 1] = NaN" "sumInOrder [Num 1, NaN] = NaN"
    by (simp_all add: sumInOrder_def)
  ultimately show ?thesis
    by (simp add: two_calls_overtime three_days_overtime)
qed

text \<open>
  Claim C3, as amended.  The vacation days and the sick days are the numbers of distinct
  dates that carry an entry of the kind, each date counted once and a date with both
  kinds counted in both.  The on-call days are the number of distinct dates that carry an
  on-call entry and are not flagged: an on-call entry on a day of vacation or sickness is
  skipped before its day is counted.
\<close>

theorem day_counts:
  "vacationDays (summaryMetrics es b now) = card (set (datesOfKind Vacation es)) \<and>
   sickDays (summaryMetrics es b now) = card (set (datesOfKind Sick es)) \<and>
   onCallDays (summaryMetrics es b now) = card (set (map date (countedOnCall es)))"
  by (simp only: summaryMetrics_days)

text \<open>
  A day with a vacation, two sicknesses and an on-call entry, and another day with an
  on-call entry: one vacation day, one sick day and one on-call day.
\<close>

theorem day_counts_witness:
  "vacationDays (summaryMetrics mixedDays (Num 0) exampleNow) = 1 \<and>
   sickDays (summaryMetrics mixedDays (Num 0) exampleNow) = 1 \<and>
   onCallDays (summaryMetrics mixedDays (Num 0) exampleNow) = 1"
proof -
  have "card (set (datesOfKind Vacation mixedDays)) = 1"
    and "card (set (datesOfKind Sick mixedDays)) = 1"
    and "card (set (map date (countedOnCall mixedDays))) = 1"
    by code_simp+
  then show ?thesis
    using day_counts [of mixedDays "Num 0" exampleNow] by simp
qed

text \<open>
  The claim as stated fails on the day of vacation that carries an on-call entry: the
  date carries an on-call entry, and no on-call day is counted.
\<close>

theorem onCallDays_counterexample:
  "card (set (datesOfKind OnCall vacationDay)) = 1 \<and>
   onCallDays (summaryMetrics vacationDay (Num 0) exampleNow) = 0"
  by code_simp

text \<open>
  Claim C10, as amended.  The three counts of days, of vacation, of sickness and of
  on-call duty, are the same for every order of the entries.  The three figures of
  hours are not: they are sums of doubles, formed in the order of the entries.
\<close>

theorem day_counts_permutation:
  assumes "mset es' = mset es"
  shows "vacationDays (summaryMetrics es' b now) = vacationDays (summaryMetrics es b now) \<and>
         sickDays (summaryMetrics es' b now) = sickDays (summaryMetrics es b now) \<and>
         onCallDays (summaryMetrics es' b now) = onCallDays (summaryMetrics es b now)"
  using perm_days [OF assms] by (simp add: summaryMetrics_days)

text \<open>The example week in the opposite order: one day of vacation and one on-call day.\<close>

theorem day_counts_permutation_witness:
  "mset (rev exampleWeek) = mset exampleWeek \<and>
   vacationDays (summaryMetrics (rev exampleWeek) (Num 2) exampleNow) = 1 \<and>
   sickDays (summaryMetrics (rev exampleWeek) (Num 2) exampleNow) = 0 \<and>
   onCallDays (summaryMetrics (rev exampleWeek) (Num 2) exampleNow) = 1"
proof -
  have p: "mset (rev exampleWeek) = mset exampleWeek"
    by simp
  have "card (set (datesOfKind Vacation exampleWeek)) = 1"
    and "card (set (datesOfKind Sick exampleWeek)) = 0"
    by code_simp+
  moreover have "card (set (map date (countedOnCall exampleWeek))) = 1"
    by (simp add: exampleWeek_counted)
  ultimately have "vacationDays (summaryMetrics exampleWeek (Num 2) exampleNow) = 1"
    and "sickDays (summaryMetrics exampleWeek (Num 2) exampleNow) = 0"
    and "onCallDays (summaryMetrics exampleWeek (Num 2) exampleNow) = 1"
    by (simp_all add: summaryMetrics_days)
  with day_counts_permutation [OF p, of "Num 2" exampleNow] p show ?thesis
    by simp
qed

text \<open>
  The claim as stated fails on the hours.  Three tasks of one day, of 6, of 12 and of
  18 minutes, give 0.6000000000000001 total work hours in this order and 0.6 in the
  opposite order.  And where a deployment has no valid time, the total overtime of two
  on-call entries of one day is 1 in one order and \<open>NaN\<close> in the other.
\<close>

theorem summaryMetrics_permutation_counterexample:
  "mset [eighteenMinutes, twelveMinutes, sixMinutes] = mset [sixMinutes, twelveMinutes, eighteenMinutes] \<and>
   totalWorkHours (summaryMetrics [sixMinutes, twelveMinutes, eighteenMinutes] (Num 0) exampleNow) =
     Num (1351079888211149 / 2251799813685248) \<and>
   totalWorkHours (summaryMetrics [eighteenMinutes, twelveMinutes, sixMinutes] (Num 0) exampleNow) =
     Num (5404319552844595 / 9007199254740992) \<and>
   mset [soundCall, brokenCall] = mset [brokenCall, soundCall] \<and>
   totalOvertime (summaryMetrics [brokenCall, soundCall] (Num 0) exampleNow) = Num 1 \<and>
   totalOvertime (summaryMetrics [soundCall, brokenCall] (Num 0) exampleNow) = NaN"
  by (simp add: two_calls_overtime short_tasks_hours)

section \<open>Properties of the displayed order\<close>

text \<open>
  The displayed list holds the same entries, and every on-call entry stands after every
  entry of another kind, whatever the dates.
\<close>

lemma set_insertSorted: "set (insertSorted cmp x ys) = insert x (set ys)"
  by (induction ys) auto

lemma mset_insertSorted: "mset (insertSorted cmp x ys) = add_mset x (mset ys)"
  by (induction ys) auto

lemma compareEntries_onCall:
  "kindOf a = OnCall \<Longrightarrow> kindOf b \<noteq> OnCall \<Longrightarrow> compareEntries getTime a b = Num 1"
  "kindOf a \<noteq> OnCall \<Longrightarrow> kindOf b = OnCall \<Longrightarrow> compareEntries getTime a b = Num (- 1)"
  by (simp_all add: compareEntries_def kindOf_OnCall)

lemma onCallNotBefore_compare:
  "js_less (Num 0) (compareEntries getTime x y) \<Longrightarrow> onCallNotBefore y x"
  "\<not> js_less (Num 0) (compareEntries getTime x y) \<Longrightarrow> onCallNotBefore x y"
proof -
  show "onCallNotBefore y x" if "js_less (Num 0) (compareEntries getTime x y)"
  proof (cases "kindOf y = OnCall \<and> kindOf x \<noteq> OnCall")
    case True
    with that show ?thesis
      by (simp add: compareEntries_onCall(2))
  next
    case False
    then show ?thesis
      unfolding onCallNotBefore_def by blast
  qed
  show "onCallNotBefore x y" if "\<not> js_less (Num 0) (compareEntries getTime x y)"
  proof (cases "kindOf x = OnCall \<and> kindOf y \<noteq> OnCall")
    case True
    with that show ?thesis
      by (simp add: compareEntries_onCall(1))
  next
    case False
    then show ?thesis
      unfolding onCallNotBefore_def by blast
  qed
qed

lemma onCallNotBefore_trans: "onCallNotBefore a b \<Longrightarrow> onCallNotBefore b c \<Longrightarrow> onCallNotBefore a c"
  unfolding onCallNotBefore_def by blast

lemma insertSorted_onCall_last:
  assumes "sorted_wrt onCallNotBefore ys"
  shows "sorted_wrt onCallNotBefore (insertSorted (compareEntries getTime) x ys)"
  using assms
proof (induction ys)
  case Nil
  then show ?case by simp
next
  case (Cons y ys)
  from Cons.prems have ys: "\<forall>z\<in>set ys. onCallNotBefore y z" and s: "sorted_wrt onCallNotBefore ys"
    by simp_all
  note ih = Cons.IH [OF s]
  show ?case
  proof (cases "js_less (Num 0) (compareEntries getTime x y)")
    case True
    then have "onCallNotBefore y x"
      by (rule onCallNotBefore_compare(1))
    with True ys ih show ?thesis
      by (simp add: set_insertSorted)
  next
    case False
    then have xy: "onCallNotBefore x y"
      by (rule onCallNotBefore_compare(2))
    with ys have "\<forall>z\<in>set ys. onCallNotBefore x z"
      using onCallNotBefore_trans by blast
    with False xy Cons.prems show ?thesis
      by simp
  qed
qed

lemma sortedEntries_onCall_last: "sorted_wrt onCallNotBefore (sortedEntries getTime es)"
  unfolding sortedEntries_def Array_sort_def
  by (induction es) (simp_all add: insertSorted_onCall_last)

lemma mset_sortedEntries: "mset (sortedEntries getTime es) = mset es"
  unfolding sortedEntries_def Array_sort_def
  by (induction es) (simp_all add: mset_insertSorted)

lemma sub_self_not_pos: "\<not> js_less (Num 0) (x - x)"
  by (cases x) simp_all

lemma cmp_same_date_no_start:
  "kindOf a \<noteq> OnCall \<Longrightarrow> kindOf b \<noteq> OnCall \<Longrightarrow> date a = date b \<Longrightarrow>
   startTime a = [] \<or> startTime b = [] \<Longrightarrow>
   \<not> js_less (Num 0) (compareEntries getTime a b)"
  by (auto simp: compareEntries_def Let_def sub_self_not_pos kindOf_OnCall)

text \<open>
  Claim C6.  The claim fails on the program: three entries of one day, a regular entry
  from 10:00, a sickness without times and a regular entry from 09:00, held in this
  order, are displayed in this order, the entry from 10:00 before the entry from 09:00,
  although both are regular entries of the same day with a start time.  The comparison
  function calls the sickness equal to both, so the list counts as sorted.
\<close>

theorem sortedEntries_out_of_order:
  "sortedEntries getTime [lateShift, sickNote, earlyShift] = [lateShift, sickNote, earlyShift] \<and>
   kindOf lateShift = Regular \<and> kindOf sickNote = Sick \<and> kindOf earlyShift = Regular \<and>
   date lateShift = date earlyShift \<and>
   localeCompare (startTime lateShift) (startTime earlyShift) = Num 1"
proof -
  have k: "kindOf lateShift = Regular" "kindOf sickNote = Sick" "kindOf earlyShift = Regular"
    by code_simp+
  have a: "\<not> js_less (Num 0) (compareEntries getTime sickNote earlyShift)"
    by (rule cmp_same_date_no_start)
      (simp_all add: k, simp_all add: sickNote_def earlyShift_def plainEntry_def)
  have b: "\<not> js_less (Num 0) (compareEntries getTime lateShift sickNote)"
    by (rule cmp_same_date_no_start)
      (simp_all add: k, simp_all add: sickNote_def lateShift_def plainEntry_def)
  have l: "localeCompare (startTime lateShift) (startTime earlyShift) = Num 1"
    by code_simp
  have d: "date lateShift = date earlyShift"
    by (simp add: earlyShift_def lateShift_def plainEntry_def)
  show ?thesis
    using a b k l d by (simp add: sortedEntries_def Array_sort_def)
qed

section \<open>Properties of adding and updating\<close>

lemma isSpecialEntry_kind: "isSpecialEntry loc = (\<not> requiresTimes (classify loc))"
  by (auto simp: isSpecialEntry_def requiresTimes_def classify_def Let_def)

lemma no_times_no_hours:
  "(s = [] \<or> e = [] \<or> js_less_eq (calculateHours s e) (Num 0)) =
     js_less_eq (calculateHours s e) (Num 0)"
  by (auto simp: calculateHours_empty)

lemma handleSubmit_cases:
  "handleSubmit i st =
     (let f = newEntry st in
      if ne_date f = [] \<or> ne_location f = [] then st\<lparr>error := Some RequiredFields\<rparr>
      else if invalidSubmission (ne_date f) (ne_location f) (ne_startTime f) (ne_endTime f)
      then st\<lparr>error := Some InvalidTimes\<rparr>
      else st\<lparr>entries := newEntryToAdd i f # entries st,
              newEntry := \<lparr>ne_date = ne_date f, ne_location = [], ne_startTime = [],
                           ne_endTime = [], ne_isChildSick = False, ne_hasDeployments = False,
                           ne_deployments = []\<rparr>,
              currentDeployment := \<lparr>df_location = [], df_startTime = [], df_endTime = []\<rparr>,
              error := None\<rparr>)"
  unfolding handleSubmit_def no_times_no_hours isSpecialEntry_kind
  by (simp add: invalidSubmission_def Let_def)

lemma handleSaveChanges_cases:
  "handleSaveChanges f prev =
     (if ef_date f = [] \<or> ef_location f = [] then (Some RequiredFields, prev)
      else if invalidSubmission (ef_date f) (ef_location f) (ef_startTime f) (ef_endTime f)
      then (Some InvalidTimes, prev)
      else (None, handleUpdateEntry (updatedEntry f) prev))"
  unfolding handleSaveChanges_def no_times_no_hours isSpecialEntry_kind
  by (simp add: invalidSubmission_def)

lemma stored_hours_positive:
  "\<not> invalidSubmission (ne_date g) (ne_location g) (ne_startTime g) (ne_endTime g) \<Longrightarrow>
   requiresTimes (kindOf (newEntryToAdd i g)) \<Longrightarrow>
   \<not> js_less_eq (entryHours (newEntryToAdd i g)) (Num 0)"
  "\<not> invalidSubmission (ef_date f) (ef_location f) (ef_startTime f) (ef_endTime f) \<Longrightarrow>
   requiresTimes (kindOf (updatedEntry f)) \<Longrightarrow>
   \<not> js_less_eq (entryHours (updatedEntry f)) (Num 0)"
  by (simp_all add: invalidSubmission_def kindOf_def newEntryToAdd_def updatedEntry_def
      entryHours_def Let_def isSpecialEntry_kind)

lemma wellFormed_newEntryToAdd: "wellFormedEntry (newEntryToAdd i f)"
  by (simp add: wellFormedEntry_def newEntryToAdd_def Let_def kindOf_OnCall kindOf_Sick
      kindOf_Vacation isSpecialEntry_def)

lemma wellFormed_updatedEntry: "wellFormedEntry (updatedEntry f)"
  by (simp add: wellFormedEntry_def updatedEntry_def Let_def kindOf_OnCall kindOf_Sick
      kindOf_Vacation isSpecialEntry_def)

text \<open>
  Claim C7, as amended.  Adding and updating reject, with a message and with the entries
  unchanged, exactly when the date or the location of the submitted entry is empty, or
  its kind needs times, which are the regular entries and the pauses (every kind but
  vacation, sickness and on-call), and the elapsed hours of its times are not above 0.
  Otherwise the entry is stored, and a stored entry of a kind that needs times has no
  zero or negative span.
\<close>

theorem add_update_validation:
  "(invalidSubmission (ne_date (newEntry st)) (ne_location (newEntry st))
       (ne_startTime (newEntry st)) (ne_endTime (newEntry st)) \<longrightarrow>
      error (handleSubmit i st) \<noteq> None \<and> entries (handleSubmit i st) = entries st) \<and>
   (\<not> invalidSubmission (ne_date (newEntry st)) (ne_location (newEntry st))
       (ne_startTime (newEntry st)) (ne_endTime (newEntry st)) \<longrightarrow>
      error (handleSubmit i st) = None \<and>
      entries (handleSubmit i st) = newEntryToAdd i (newEntry st) # entries st \<and>
      (requiresTimes (kindOf (newEntryToAdd i (newEntry st))) \<longrightarrow>
         \<not> js_less_eq (entryHours (newEntryToAdd i (newEntry st))) (Num 0))) \<and>
   (invalidSubmission (ef_date f) (ef_location f) (ef_startTime f) (ef_endTime f) \<longrightarrow>
      fst (handleSaveChanges f prev) \<noteq> None \<and> snd (handleSaveChanges f prev) = prev) \<and>
   (\<not> invalidSubmission (ef_date f) (ef_location f) (ef_startTime f) (ef_endTime f) \<longrightarrow>
      fst (handleSaveChanges f prev) = None \<and>
      snd (handleSaveChanges f prev) = handleUpdateEntry (updatedEntry f) prev \<and>
      (requiresTimes (kindOf (updatedEntry f)) \<longrightarrow>
         \<not> js_less_eq (entryHours (updatedEntry f)) (Num 0)))"
  using stored_hours_positive(1) [of "newEntry st" i] stored_hours_positive(2) [of f]
  by (auto simp: handleSubmit_cases handleSaveChanges_cases Let_def invalidSubmission_def)

text \<open>
  A pause without times is rejected and a regular entry from 10:00 to 12:00 is stored,
  by the form for a new entry and by the edit dialog.
\<close>

theorem add_update_validation_witness:
  "invalidSubmission (ne_date pauseForm) (ne_location pauseForm) (ne_startTime pauseForm)
     (ne_endTime pauseForm) \<and>
   error (handleSubmit ''9'' (stateWith pauseForm)) \<noteq> None \<and>
   entries (handleSubmit ''9'' (stateWith pauseForm)) = [earlyShift] \<and>
   snd (handleSaveChanges (editOf pauseForm) [earlyShift]) = [earlyShift] \<and>
   \<not> invalidSubmission (ne_date shiftForm) (ne_location shiftForm) (ne_startTime shiftForm)
     (ne_endTime shiftForm) \<and>
   error (handleSubmit ''9'' (stateWith shiftForm)) = None \<and>
   entries (handleSubmit ''9'' (stateWith shiftForm)) = [newEntryToAdd ''9'' shiftForm, earlyShift] \<and>
   snd (handleSaveChanges (editOf shiftForm) [earlyShift]) =
     handleUpdateEntry (updatedEntry (editOf shiftForm)) [earlyShift]"
proof -
  have bad: "invalidSubmission (ne_date pauseForm) (ne_location pauseForm)
      (ne_startTime pauseForm) (ne_endTime pauseForm)"
    by code_simp
  have good: "\<not> invalidSubmission (ne_date shiftForm) (ne_location shiftForm)
      (ne_startTime shiftForm) (ne_endTime shiftForm)"
    by (simp add: invalidSubmission_def shiftForm_def emptyForm_def example_hours)
  have s: "newEntry (stateWith g) = g" "entries (stateWith g) = [earlyShift]" for g
    by (simp_all add: stateWith_def)
  have e: "ef_date (editOf g) = ne_date g" "ef_location (editOf g) = ne_location g"
    "ef_startTime (editOf g) = ne_startTime g" "ef_endTime (editOf g) = ne_endTime g" for g
    by (simp_all add: editOf_def)
  show ?thesis
    using add_update_validation
      [where st = "stateWith pauseForm" and i = "''9''" and f = "editOf pauseForm"
        and prev = "[earlyShift]"]
      add_update_validation
      [where st = "stateWith shiftForm" and i = "''9''" and f = "editOf shiftForm"
        and prev = "[earlyShift]"]
      bad good
    by (simp add: s e)
qed

text \<open>
  The claim as stated, with regular entries as the only kind that needs times, fails on
  a pause without times: it is rejected, and by the claim it is not.
\<close>

theorem pause_without_times_counterexample:
  "error (handleSubmit ''9'' (stateWith pauseForm)) = Some InvalidTimes \<and>
   entries (handleSubmit ''9'' (stateWith pauseForm)) = entries (stateWith pauseForm) \<and>
   \<not> invalidAsClaimed (ne_date (newEntry (stateWith pauseForm)))
       (ne_location (newEntry (stateWith pauseForm)))
       (ne_startTime (newEntry (stateWith pauseForm)))
       (ne_endTime (newEntry (stateWith pauseForm)))"
proof -
  have "error (handleSubmit ''9'' (stateWith pauseForm)) = Some InvalidTimes"
    by code_simp
  moreover have "entries (handleSubmit ''9'' (stateWith pauseForm)) = entries (stateWith pauseForm)"
    by code_simp
  moreover have "\<not> invalidAsClaimed (ne_date (newEntry (stateWith pauseForm)))
       (ne_location (newEntry (stateWith pauseForm)))
       (ne_startTime (newEntry (stateWith pauseForm)))
       (ne_endTime (newEntry (stateWith pauseForm)))"
    by code_simp
  ultimately show ?thesis by blast
qed

text \<open>
  Claim C9.  Every entry that a successful add or update produces satisfies the
  invariant of the data model: it has deployments only when its kind is on-call (and the
  check box for deployments is set), it has the child flag only when its kind is
  sickness, and its start and end time are empty whenever its kind is vacation, sickness
  or on-call.
\<close>

theorem stored_entry_well_formed:
  "(error (handleSubmit i st) = None \<longrightarrow>
      entries (handleSubmit i st) = newEntryToAdd i (newEntry st) # entries st \<and>
      wellFormedEntry (newEntryToAdd i (newEntry st)) \<and>
      (deployments (newEntryToAdd i (newEntry st)) \<noteq> None \<longrightarrow>
         ne_hasDeployments (newEntry st))) \<and>
   (fst (handleSaveChanges f prev) = None \<longrightarrow>
      snd (handleSaveChanges f prev) = handleUpdateEntry (updatedEntry f) prev \<and>
      wellFormedEntry (updatedEntry f) \<and>
      (deployments (updatedEntry f) \<noteq> None \<longrightarrow> ef_hasDeployments f))"
proof -
  have "deployments (newEntryToAdd i (newEntry st)) \<noteq> None \<longrightarrow> ne_hasDeployments (newEntry st)"
    by (simp add: newEntryToAdd_def Let_def)
  moreover have "deployments (updatedEntry f) \<noteq> None \<longrightarrow> ef_hasDeployments f"
    by (simp add: updatedEntry_def Let_def)
  moreover have "error (handleSubmit i st) = None \<longrightarrow>
      entries (handleSubmit i st) = newEntryToAdd i (newEntry st) # entries st"
    by (simp add: handleSubmit_def Let_def)
  moreover have "fst (handleSaveChanges f prev) = None \<longrightarrow>
      snd (handleSaveChanges f prev) = handleUpdateEntry (updatedEntry f) prev"
    by (simp add: handleSaveChanges_def)
  ultimately show ?thesis
    using wellFormed_newEntryToAdd [of i "newEntry st"] wellFormed_updatedEntry [of f]
    by blast
qed

text \<open>
  An on-call entry with a deployment, submitted with a start time in the form: it is
  stored as an on-call entry with its deployment and without times.
\<close>

theorem stored_entry_well_formed_witness:
  "error (handleSubmit ''9'' (stateWith onCallForm)) = None \<and>
   fst (handleSaveChanges (editOf onCallForm) [earlyShift]) = None \<and>
   wellFormedEntry (newEntryToAdd ''9'' onCallForm) \<and>
   wellFormedEntry (updatedEntry (editOf onCallForm)) \<and>
   kindOf (newEntryToAdd ''9'' onCallForm) = OnCall \<and>
   deployments (newEntryToAdd ''9'' onCallForm) = Some [deploymentAt ''4'' ''22:00'' ''23:00''] \<and>
   startTime (newEntryToAdd ''9'' onCallForm) = []"
proof -
  have a: "error (handleSubmit ''9'' (stateWith onCallForm)) = None"
    by code_simp
  have u: "fst (handleSaveChanges (editOf onCallForm) [earlyShift]) = None"
    by code_simp
  have n: "newEntry (stateWith onCallForm) = onCallForm"
    by (simp add: stateWith_def)
  have k: "kindOf (newEntryToAdd ''9'' onCallForm) = OnCall"
    by code_simp
  have d: "deployments (newEntryToAdd ''9'' onCallForm) = Some [deploymentAt ''4'' ''22:00'' ''23:00'']"
    by code_simp
  have s: "startTime (newEntryToAdd ''9'' onCallForm) = []"
    by code_simp
  show ?thesis
    using stored_entry_well_formed
      [where st = "stateWith onCallForm" and i = "''9''" and f = "editOf onCallForm"
        and prev = "[earlyShift]"]
      a u k d s
    by (simp add: n)
qed

section \<open>Properties of the import\<close>

lemma arrayOf_object: "arrayOf (getProperty data k) = Some es \<Longrightarrow> truthy data"
  by (cases data) simp_all

text \<open>
  Claim C8.  An import is rejected, with the document (entries, employee name, saved
  locations and base overtime) unchanged, unless the parsed value has an \<open>entries\<close>
  member that is an array.  When it has, the entries are loaded as given, and each other
  member is taken when it has the right type and is otherwise replaced by its default:
  the empty string for the employee name, the empty list for the saved locations and
  0 for the base overtime.
\<close>

theorem import_validation:
  "(entriesArray content = None \<longrightarrow>
      fst (onload content doc) \<noteq> None \<and> snd (onload content doc) = doc) \<and>
   (content = Parsed data \<and> arrayOf (getProperty data ''entries'') = Some es \<longrightarrow>
      fst (onload content doc) = None \<and>
      doc_entries (snd (onload content doc)) = es \<and>
      doc_employeeName (snd (onload content doc)) =
        (case getProperty data ''employeeName'' of Some (JString s) \<Rightarrow> s | _ \<Rightarrow> []) \<and>
      doc_savedLocations (snd (onload content doc)) =
        (case getProperty data ''savedLocations'' of Some (JArray xs) \<Rightarrow> xs | _ \<Rightarrow> []) \<and>
      doc_baseOvertime (snd (onload content doc)) =
        (case getProperty data ''baseOvertime'' of Some (JNumber r) \<Rightarrow> Num r | _ \<Rightarrow> Num 0))"
proof (intro conjI impI)
  assume "entriesArray content = None"
  then show "fst (onload content doc) \<noteq> None" "snd (onload content doc) = doc"
    by (auto simp: entriesArray_def onload_def split: file_content.splits)
next
  assume a: "content = Parsed data \<and> arrayOf (getProperty data ''entries'') = Some es"
  then have t: "truthy data"
    using arrayOf_object by blast
  show "fst (onload content doc) = None" "doc_entries (snd (onload content doc)) = es"
    using a t by (simp_all add: onload_def)
  show "doc_employeeName (snd (onload content doc)) =
        (case getProperty data ''employeeName'' of Some (JString s) \<Rightarrow> s | _ \<Rightarrow> [])"
    using a t
    by (cases "getProperty data ''employeeName''" rule: stringOf.cases) (simp_all add: onload_def)
  show "doc_savedLocations (snd (onload content doc)) =
        (case getProperty data ''savedLocations'' of Some (JArray xs) \<Rightarrow> xs | _ \<Rightarrow> [])"
    using a t
    by (cases "getProperty data ''savedLocations''" rule: arrayOf.cases) (simp_all add: onload_def)
  show "doc_baseOvertime (snd (onload content doc)) =
        (case getProperty data ''baseOvertime'' of Some (JNumber r) \<Rightarrow> Num r | _ \<Rightarrow> Num 0)"
    using a t
    by (cases "getProperty data ''baseOvertime''" rule: numberOf.cases) (simp_all add: onload_def)
qed

text \<open>
  An object whose employee name is a number and which has neither saved locations nor a
  base overtime is imported with the three defaults; an object whose \<open>entries\<close> is no
  array, and a text that is no JSON, leave the document as it was.
\<close>

theorem import_validation_witness:
  "entriesArray (Parsed importedObject) = Some [JString ''x''] \<and>
   fst (onload (Parsed importedObject) oldDocument) = None \<and>
   snd (onload (Parsed importedObject) oldDocument) =
     \<lparr>doc_entries = [JString ''x''], doc_employeeName = [], doc_savedLocations = [],
      doc_baseOvertime = Num 0\<rparr> \<and>
   entriesArray (Parsed (JObject [(''entries'', JNull)])) = None \<and>
   snd (onload (Parsed (JObject [(''entries'', JNull)])) oldDocument) = oldDocument \<and>
   entriesArray Malformed = None \<and>
   snd (onload Malformed oldDocument) = oldDocument"
proof -
  have a: "arrayOf (getProperty importedObject ''entries'') = Some [JString ''x'']"
    by (simp add: importedObject_def)
  have b: "entriesArray (Parsed (JObject [(''entries'', JNull)])) = None"
    by (simp add: entriesArray_def)
  have c: "entriesArray Malformed = None"
    by (simp add: entriesArray_def)
  have p: "getProperty importedObject ''employeeName'' = Some (JNumber 7)"
    "getProperty importedObject ''savedLocations'' = None"
    "getProperty importedObject ''baseOvertime'' = None"
    by (simp_all add: importedObject_def)
  have "snd (onload (Parsed importedObject) oldDocument) =
     \<lparr>doc_entries = [JString ''x''], doc_employeeName = [], doc_savedLocations = [],
      doc_baseOvertime = Num 0\<rparr>"
    using import_validation
      [where content = "Parsed importedObject" and data = importedObject
        and es = "[JString ''x'']" and doc = oldDocument] a
    by (intro document.equality) (simp_all add: p)
  then show ?thesis
    using import_validation
      [where content = "Parsed importedObject" and data = importedObject
        and es = "[JString ''x'']" and doc = oldDocument]
      import_validation [where content = "Parsed (JObject [(''entries'', JNull)])" and doc = oldDocument]
      import_validation [where content = Malformed and doc = oldDocument]
      a b c
    by (simp add: entriesArray_def)
qed

end
